theory Spec2Isabelle
  imports Complex_Main
begin

section \<open>JavaScript strings and values\<close>

text \<open>
  The enrollment service (\<^verbatim>\<open>src/backend/server.js\<close>, the MongoDB-backed server) is an
  Express application. Strings are modelled as lists of 8-bit characters, read as the
  code units \<open>0x00\<close> .. \<open>0xFF\<close> (ASCII and Latin-1); code units above \<open>0xFF\<close> are outside
  the model. \<open>isWhiteSpace\<close> is the set that \<^verbatim>\<open>String.prototype.trim\<close> strips and the
  regular-expression class \<^verbatim>\<open>\s\<close> matches, restricted to that range: TAB, LF, VT, FF, CR,
  SPACE and NBSP.
\<close>

definition isWhiteSpace :: "char \<Rightarrow> bool" where
  "isWhiteSpace c =
     (c \<in> set [CHR 0x09, CHR 0x0A, CHR 0x0B, CHR 0x0C, CHR 0x0D, CHR 0x20, CHR 0xA0])"

definition trim :: "string \<Rightarrow> string" where
  "trim s = rev (dropWhile isWhiteSpace (rev (dropWhile isWhiteSpace s)))"

text \<open>The character class \<^verbatim>\<open>[<>\"']\<close> of \<open>sanitizeInput\<close>.\<close>

definition isMarkup :: "char \<Rightarrow> bool" where
  "isMarkup c = (c \<in> set [CHR ''<'', CHR ''>'', CHR 0x22, CHR 0x27])"

text \<open>
  \<^verbatim>\<open>String.prototype.toLowerCase\<close> on the modelled range: \<open>A\<close>..\<open>Z\<close> and the Latin-1
  capitals \<open>0xC0\<close>..\<open>0xDE\<close> (without the multiplication sign \<open>0xD7\<close>) move up by 32.
  \<open>toUpperCase\<close> is modelled on ASCII only; the service applies it to the hexadecimal
  digits of a document identifier.
\<close>

definition lowerChar :: "char \<Rightarrow> char" where
  "lowerChar c =
     (let n = of_char c :: nat in
      if (65 \<le> n \<and> n \<le> 90) \<or> (192 \<le> n \<and> n \<le> 222 \<and> n \<noteq> 215)
      then char_of (n + 32) else c)"

definition toLowerCase :: "string \<Rightarrow> string" where
  "toLowerCase s = map lowerChar s"

definition upperChar :: "char \<Rightarrow> char" where
  "upperChar c =
     (let n = of_char c :: nat in
      if 97 \<le> n \<and> n \<le> 122 then char_of (n - 32) else c)"

definition toUpperCase :: "string \<Rightarrow> string" where
  "toUpperCase s = map upperChar s"

text \<open>
  A value of a parsed request body, as \<^verbatim>\<open>JSON.parse\<close> builds it: a primitive, an array,
  or an object, given by the members of its text in their order. A JSON number is
  modelled by an integer. Every member of an object becomes an own property (also one
  named \<^verbatim>\<open>__proto__\<close>), and a later member replaces an earlier one of the same name.
  No value of a body is a function.
\<close>

datatype jsval =
    JNull
  | JBool bool
  | JNum int
  | JStr string
  | JArr "jsval list"
  | JObj "(string \<times> jsval) list"

definition property :: "(string \<times> jsval) list \<Rightarrow> string \<Rightarrow> jsval option" where
  "property members key = map_of (rev members) key"

text \<open>
  The own properties of an object the handler reads by name, such as \<^verbatim>\<open>req.body\<close>. A
  property that is absent reads as \<^verbatim>\<open>undefined\<close>, modelled by \<open>None\<close>.
\<close>

type_synonym jsobject = "string \<rightharpoonup> jsval"

fun truthy :: "jsval option \<Rightarrow> bool" where
  "truthy None = False"
| "truthy (Some JNull) = False"
| "truthy (Some (JBool b)) = b"
| "truthy (Some (JNum n)) = (n \<noteq> 0)"
| "truthy (Some (JStr s)) = (s \<noteq> [])"
| "truthy (Some (JArr xs)) = True"
| "truthy (Some (JObj members)) = True"

section \<open>Sanitization\<close>

text \<open>
  \<^verbatim>\<open>
  const sanitizeInput = (input) => {
    if (typeof input === 'string') {
      return input.trim().replace(/[<>\"']/g, '');
    }
    return input;
  };
  \<close>
\<close>

fun sanitizeInput :: "jsval \<Rightarrow> jsval" where
  "sanitizeInput (JStr input) = JStr (filter (\<lambda>c. \<not> isMarkup c) (trim input))"
| "sanitizeInput input = input"

section \<open>The platform\<close>

text \<open>
  Library functions the service calls and whose code is not part of the repository are
  parameters of the model:
  \<^item> \<^verbatim>\<open>validator.isEmail\<close> on a string;
  \<^item> the date-string parser behind \<^verbatim>\<open>new Date(string)\<close> (milliseconds since the epoch;
    \<open>None\<close> is the invalid date, whose time value is \<^verbatim>\<open>NaN\<close>);
  \<^item> \<^verbatim>\<open>Number.prototype.toString\<close>;
  \<^item> what Mongoose makes of a value that is not a string where the schema declares a
    \<^verbatim>\<open>String\<close> path. In a document: the string an array or object is cast to, or \<open>None\<close>
    when the cast fails, and the message of a failed cast for a path and value. In the
    duplicate query: the condition on stored id numbers that the query value stands for
    (a number or boolean is cast, an array asks for one of its elements, an object is
    read as query operators), or \<open>None\<close> when Mongoose refuses the query with a
    \<^verbatim>\<open>CastError\<close>.
\<close>

record platform =
  isEmail :: "string \<Rightarrow> bool"
  parseDate :: "string \<Rightarrow> int option"
  numToString :: "int \<Rightarrow> string"
  castNested :: "jsval \<Rightarrow> string option"
  castMessage :: "string \<Rightarrow> jsval option \<Rightarrow> string"
  castQuery :: "jsval option \<Rightarrow> (string \<Rightarrow> bool) option"

text \<open>
  Exceptions that reach the \<^verbatim>\<open>catch\<close> block of the handler: a \<^verbatim>\<open>TypeError\<close> of the
  language, the driver's duplicate-key error (code 11000, with the first key of its
  \<^verbatim>\<open>keyValue\<close>), Mongoose's \<^verbatim>\<open>ValidationError\<close> with its messages, and the \<^verbatim>\<open>CastError\<close>
  of a query Mongoose refuses.
\<close>

datatype exn = TypeError | MongoDuplicateKey string | ValidationError "string list" | CastError

text \<open>
  \<^verbatim>\<open>v.toString()\<close>. On an object the method is looked up first: an own property of that
  name is no function and the call throws, otherwise \<^verbatim>\<open>Object.prototype.toString\<close>
  answers. An array joins the strings of its elements with commas, \<^verbatim>\<open>null\<close> counting as
  the empty string; converting an element that is an object throws under the same
  condition. \<^verbatim>\<open>null\<close> has no properties.
\<close>

fun toString :: "platform \<Rightarrow> jsval \<Rightarrow> exn + string"
  and join :: "platform \<Rightarrow> jsval list \<Rightarrow> exn + string" where
  "toString P (JStr s) = Inr s"
| "toString P (JNum n) = Inr (numToString P n)"
| "toString P (JBool b) = Inr (if b then ''true'' else ''false'')"
| "toString P JNull = Inl TypeError"
| "toString P (JArr xs) = join P xs"
| "toString P (JObj members) =
     (if property members ''toString'' \<noteq> None then Inl TypeError
      else Inr ''[object Object]'')"
| "join P [] = Inr []"
| "join P (x # xs) =
     (case (if x = JNull then Inr [] else toString P x) of
        Inl e \<Rightarrow> Inl e
      | Inr s \<Rightarrow>
          if xs = [] then Inr s
          else (case join P xs of
                  Inl e \<Rightarrow> Inl e
                | Inr t \<Rightarrow> Inr (s @ '','' @ t)))"

text \<open>
  \<^verbatim>\<open>new Date(v)\<close>: a string is parsed, a number is the time value itself when it lies
  within the range of dates (\<open>8.64e15\<close> ms either side of the epoch), a boolean and
  \<^verbatim>\<open>null\<close> convert to a number, \<^verbatim>\<open>undefined\<close> gives the invalid date. An array or object
  is converted to a primitive first, which is the string of its \<^verbatim>\<open>toString\<close> (its
  \<^verbatim>\<open>valueOf\<close> returns no primitive), and that string is parsed.
\<close>

fun newDate :: "platform \<Rightarrow> jsval option \<Rightarrow> exn + int option" where
  "newDate P None = Inr None"
| "newDate P (Some (JStr s)) = Inr (parseDate P s)"
| "newDate P (Some (JNum n)) = Inr (if \<bar>n\<bar> \<le> 8640000000000000 then Some n else None)"
| "newDate P (Some (JBool b)) = Inr (Some (if b then 1 else 0))"
| "newDate P (Some JNull) = Inr (Some 0)"
| "newDate P (Some v) =
     (case toString P v of
        Inl e \<Rightarrow> Inl e
      | Inr s \<Rightarrow> Inr (parseDate P s))"

section \<open>The validator\<close>

text \<open>
  \<^verbatim>\<open>
  const validateEnrollmentData = (data) => {
    const errors = [];
    const requiredFields = [
      'firstName', 'lastName', 'email', 'phone', 'idnumber',
      'dateOfBirth', 'course', 'address', 'city', 'zipCode',
      'emergencyContact', 'emergencyPhone'
    ];
    requiredFields.forEach(field => {
      if (!data[field] || !data[field].toString().trim()) {
        errors.push(`${field} is required`);
      }
    });
    if (data.email && !validator.isEmail(data.email)) {
      errors.push('Please provide a valid email address');
    }
    if (data.phone && !/^[\d\s\-\+\(\)]{10,}$/.test(data.phone.replace(/\s/g, ''))) {
      errors.push('Please provide a valid phone number');
    }
    if (data.emergencyPhone &&
        !/^[\d\s\-\+\(\)]{10,}$/.test(data.emergencyPhone.replace(/\s/g, ''))) {
      errors.push('Please provide a valid emergency phone number');
    }
    if (data.dateOfBirth) {
      const birthDate = new Date(data.dateOfBirth);
      const age = Math.floor((new Date() - birthDate) / (365.25 * 24 * 60 * 60 * 1000));
      if (age < 16 || age > 100) {
        errors.push('Age must be between 16 and 100 years');
      }
    }
    return errors;
  };
  \<close>
  The validator returns its list or throws: \<^verbatim>\<open>toString\<close> can throw on an object or
  array, \<^verbatim>\<open>validator.isEmail\<close> asserts that its argument is a string, and only a string
  has a \<^verbatim>\<open>replace\<close> method that is a function. The clock reading \<^verbatim>\<open>new Date()\<close> is the
  argument \<open>now\<close>.
\<close>

definition requiredFields :: "string list" where
  "requiredFields =
     [''firstName'', ''lastName'', ''email'', ''phone'', ''idnumber'',
      ''dateOfBirth'', ''course'', ''address'', ''city'', ''zipCode'',
      ''emergencyContact'', ''emergencyPhone'']"

text \<open>The test \<^verbatim>\<open>!data[field] || !data[field].toString().trim()\<close>.\<close>

definition isMissing :: "platform \<Rightarrow> jsval option \<Rightarrow> exn + bool" where
  "isMissing P v =
     (case v of
        None \<Rightarrow> Inr True
      | Some x \<Rightarrow>
          if truthy v then
            (case toString P x of
               Inl e \<Rightarrow> Inl e
             | Inr s \<Rightarrow> Inr (trim s = []))
          else Inr True)"

text \<open>The \<^verbatim>\<open>forEach\<close> over the required fields, from the first field on.\<close>

fun required_errors :: "platform \<Rightarrow> jsobject \<Rightarrow> string list \<Rightarrow> exn + string list" where
  "required_errors P data [] = Inr []"
| "required_errors P data (field # others) =
     (case isMissing P (data field) of
        Inl e \<Rightarrow> Inl e
      | Inr missing \<Rightarrow>
          (case required_errors P data others of
             Inl e \<Rightarrow> Inl e
           | Inr rest \<Rightarrow>
               Inr ((if missing then [field @ '' is required''] else []) @ rest)))"

definition email_errors :: "platform \<Rightarrow> jsval option \<Rightarrow> exn + string list" where
  "email_errors P v =
     (if truthy v then
        (case v of
           Some (JStr s) \<Rightarrow>
             Inr (if isEmail P s then [] else [''Please provide a valid email address''])
         | _ \<Rightarrow> Inl TypeError)
      else Inr [])"

definition isDigit :: "char \<Rightarrow> bool" where
  "isDigit c = (c \<in> set ''0123456789'')"

text \<open>The test \<^verbatim>\<open>/^[\d\s\-\+\(\)]{10,}$/.test(v.replace(/\s/g, ''))\<close>.\<close>

definition phonePattern :: "string \<Rightarrow> bool" where
  "phonePattern v =
     (let t = filter (\<lambda>c. \<not> isWhiteSpace c) v
      in 10 \<le> length t \<and>
         list_all (\<lambda>c. isDigit c \<or> isWhiteSpace c \<or> c \<in> set ''-+()'') t)"

definition phone_errors :: "string \<Rightarrow> jsval option \<Rightarrow> exn + string list" where
  "phone_errors msg v =
     (if truthy v then
        (case v of
           Some (JStr s) \<Rightarrow> Inr (if phonePattern s then [] else [msg])
         | _ \<Rightarrow> Inl TypeError)
      else Inr [])"

text \<open>
  \<open>365.25 * 24 * 60 * 60 * 1000\<close>. Time values are integers, and the floor of the
  floating-point quotient compares with 16 and 100 as the integer quotient does: a
  quotient that is not a whole number lies at least \<open>1 / msPerYear\<close> from one, which
  is more than the rounding error of the division for every age below half a million
  years.
\<close>

definition msPerYear :: int where
  "msPerYear = 31557600000"

definition ageAt :: "int \<Rightarrow> int \<Rightarrow> int" where
  "ageAt now birth = (now - birth) div msPerYear"

definition age_errors :: "platform \<Rightarrow> int \<Rightarrow> jsval option \<Rightarrow> exn + string list" where
  "age_errors P now v =
     (if truthy v then
        (case newDate P v of
           Inl e \<Rightarrow> Inl e
         | Inr None \<Rightarrow> Inr []
         | Inr (Some birthDate) \<Rightarrow>
             (let age = ageAt now birthDate
              in if age < 16 \<or> age > 100
                 then Inr [''Age must be between 16 and 100 years''] else Inr []))
      else Inr [])"

definition validateEnrollmentData :: "platform \<Rightarrow> int \<Rightarrow> jsobject \<Rightarrow> exn + string list" where
  "validateEnrollmentData P now data =
     (case required_errors P data requiredFields of
        Inl e \<Rightarrow> Inl e
      | Inr requiredErrors \<Rightarrow>
     (case email_errors P (data ''email'') of
        Inl e \<Rightarrow> Inl e
      | Inr emailErrors \<Rightarrow>
     (case phone_errors ''Please provide a valid phone number'' (data ''phone'') of
        Inl e \<Rightarrow> Inl e
      | Inr phoneErrors \<Rightarrow>
     (case phone_errors ''Please provide a valid emergency phone number''
             (data ''emergencyPhone'') of
        Inl e \<Rightarrow> Inl e
      | Inr emergencyErrors \<Rightarrow>
     (case age_errors P now (data ''dateOfBirth'') of
        Inl e \<Rightarrow> Inl e
      | Inr ageErrors \<Rightarrow>
          Inr (requiredErrors @ emailErrors @ phoneErrors @ emergencyErrors
               @ ageErrors))))))"

section \<open>The record store\<close>

text \<open>
  A stored document of the \<^verbatim>\<open>Student\<close> model. \<open>oid\<close> is the document's \<^verbatim>\<open>_id\<close> in its
  hexadecimal form; dates are time values in milliseconds. The collection is the list
  of its documents in natural order.
\<close>

record student =
  oid :: string
  firstName :: string
  lastName :: string
  email :: string
  phone :: string
  idnumber :: string
  dateOfBirth :: int
  course :: string
  address :: string
  city :: string
  zipCode :: string
  emergencyContact :: string
  emergencyPhone :: string
  enrollmentDate :: int
  status :: string
  ipAddress :: "string option"
  userAgent :: "string option"
  createdAt :: int
  updatedAt :: int

text \<open>
  The object the handler passes to \<^verbatim>\<open>new Student(...)\<close>: the sanitized values as they
  are, the lower-cased email, and the \<^verbatim>\<open>Date\<close> built from the date of birth.
\<close>

record studentData =
  sd_firstName :: "jsval option"
  sd_lastName :: "jsval option"
  sd_email :: string
  sd_phone :: "jsval option"
  sd_idnumber :: "jsval option"
  sd_dateOfBirth :: "int option"
  sd_course :: "jsval option"
  sd_address :: "jsval option"
  sd_city :: "jsval option"
  sd_zipCode :: "jsval option"
  sd_emergencyContact :: "jsval option"
  sd_emergencyPhone :: "jsval option"
  sd_ipAddress :: "string option"
  sd_userAgent :: "string option"

text \<open>
  What one request reads from its surroundings: the clock at the validator
  (\<^verbatim>\<open>new Date()\<close> in \<open>validateEnrollmentData\<close>), at the \<^verbatim>\<open>enrollmentDate\<close> default, at
  the schema's age validator and at the timestamps; the identifier generated for the
  new document; which of the documents that match the duplicate query the store
  returns (\<open>pick\<close> gives its position among the matches, counted round); the
  documents other requests insert between the duplicate query and the save; what
  happens to the notification emails; and whether the form rate limiter has run out
  for this client.
\<close>

datatype mail_outcome = Delivered | TransporterFailed | SendFailed

record run =
  now_validate :: int
  now_default :: int
  now_schema :: int
  now_saved :: int
  newId :: string
  pick :: "student list \<Rightarrow> nat"
  between :: "student list"
  mail :: mail_outcome
  form_limited :: bool

text \<open>
  Mongoose casts a value for a \<^verbatim>\<open>String\<close> path: \<^verbatim>\<open>null\<close> and \<^verbatim>\<open>undefined\<close> stay unset, a
  number or boolean becomes its \<^verbatim>\<open>toString()\<close>, an array or object is cast as the platform
  says. The path's \<^verbatim>\<open>trim: true\<close> setter then trims the string.
\<close>

datatype casted = Unset | Value string | Failed

fun castString :: "platform \<Rightarrow> jsval option \<Rightarrow> casted" where
  "castString P None = Unset"
| "castString P (Some JNull) = Unset"
| "castString P (Some (JStr s)) = Value s"
| "castString P (Some (JNum n)) = Value (numToString P n)"
| "castString P (Some (JBool b)) = Value (if b then ''true'' else ''false'')"
| "castString P (Some v) = (case castNested P v of None \<Rightarrow> Failed | Some s \<Rightarrow> Value s)"

fun trimmed :: "casted \<Rightarrow> casted" where
  "trimmed (Value s) = Value (trim s)"
| "trimmed v = v"

definition castPath :: "platform \<Rightarrow> jsval option \<Rightarrow> casted" where
  "castPath P v = trimmed (castString P v)"

text \<open>
  Validation of one path: a value that did not cast reports the cast error and is not
  validated further; \<^verbatim>\<open>required\<close> rejects an unset or empty string; otherwise the
  remaining validators run in the order of the schema and the first that rejects
  reports its message.
\<close>

definition checkPath ::
  "string \<Rightarrow> string \<Rightarrow> (string \<Rightarrow> string list) \<Rightarrow> casted \<Rightarrow> string list" where
  "checkPath castFailed requiredMessage others v =
     (case v of
        Unset \<Rightarrow> [requiredMessage]
      | Failed \<Rightarrow> [castFailed]
      | Value s \<Rightarrow> if s = [] then [requiredMessage] else take 1 (others s))"

definition minlength :: "nat \<Rightarrow> string \<Rightarrow> string \<Rightarrow> string list" where
  "minlength n msg s = (if length s < n then [msg] else [])"

definition maxlength :: "nat \<Rightarrow> string \<Rightarrow> string \<Rightarrow> string list" where
  "maxlength n msg s = (if n < length s then [msg] else [])"

definition validate_with :: "(string \<Rightarrow> bool) \<Rightarrow> string \<Rightarrow> string \<Rightarrow> string list" where
  "validate_with ok msg s = (if ok s then [] else [msg])"

definition courses :: "string list" where
  "courses =
     [''Computer Science'', ''Business Administration'', ''Engineering'', ''Medicine'',
      ''Arts & Design'', ''Psychology'', ''Mathematics'', ''Literature'',
      ''Information Technology'', ''Project Management'']"

definition castDateMessage :: string where
  "castDateMessage =
     ''Cast to date failed for value '' @ [CHR 0x22] @ ''Invalid Date'' @ [CHR 0x22]
     @ '' (type Date) at path '' @ [CHR 0x22] @ ''dateOfBirth'' @ [CHR 0x22]"

text \<open>
  The schema's validator of \<^verbatim>\<open>dateOfBirth\<close>; an invalid \<^verbatim>\<open>Date\<close> does not cast.
  \<^verbatim>\<open>
  validator: function(v) {
    const age = Math.floor((new Date() - v) / (365.25 * 24 * 60 * 60 * 1000));
    return age >= 16 && age <= 100;
  }
  \<close>
\<close>

definition checkDateOfBirth :: "int \<Rightarrow> int option \<Rightarrow> string list" where
  "checkDateOfBirth now v =
     (case v of
        None \<Rightarrow> [castDateMessage]
      | Some birth \<Rightarrow>
          (let age = ageAt now birth
           in if age \<ge> 16 \<and> age \<le> 100 then []
              else [''Age must be between 16 and 100 years'']))"

text \<open>
  The messages of \<^verbatim>\<open>studentSchema\<close>, path by path in the order of the schema. The
  email path lower-cases as well as trims.
  \<^verbatim>\<open>
  firstName: { type: String, required: [true, 'First name is required'], trim: true,
    minlength: [2, 'First name must be at least 2 characters'],
    maxlength: [50, 'First name cannot exceed 50 characters'] },
  lastName: { type: String, required: [true, 'Last name is required'], trim: true,
    minlength: [2, 'Last name must be at least 2 characters'],
    maxlength: [50, 'Last name cannot exceed 50 characters'] },
  email: { type: String, required: [true, 'Email is required'], unique: true,
    lowercase: true, trim: true,
    validate: [validator.isEmail, 'Please provide a valid email'] },
  phone: { type: String, required: [true, 'Phone number is required'], trim: true,
    validate: { validator: function(v) {
        return /^[\d\s\-\+\(\)]{10,}$/.test(v.replace(/\s/g, '')); },
      message: 'Please provide a valid phone number' } },
  idnumber: { type: String, required: [true, 'ID number is required'], unique: true,
    trim: true, minlength: [6, 'ID number must be at least 6 characters'] },
  dateOfBirth: { type: Date, required: [true, 'Date of birth is required'],
    validate: { validator: ..., message: 'Age must be between 16 and 100 years' } },
  course: { type: String, required: [true, 'Course selection is required'], trim: true,
    enum: { values: ['Computer Science', ...], message: 'Please select a valid course' } },
  address: { type: String, required: [true, 'Address is required'], trim: true,
    minlength: [10, 'Please provide a complete address'] },
  city: { type: String, required: [true, 'City is required'], trim: true },
  zipCode: { type: String, required: [true, 'ZIP code is required'], trim: true },
  emergencyContact: { type: String, required: [true, 'Emergency contact is required'],
    trim: true },
  emergencyPhone: { type: String, required: [true, 'Emergency phone is required'],
    trim: true, validate: { validator: ... (as for phone),
      message: 'Please provide a valid emergency phone number' } },
  enrollmentDate: { type: Date, default: Date.now },
  status: { type: String, default: 'pending', enum: ['pending', 'approved', 'rejected'] },
  ipAddress: String, userAgent: String
  }, { timestamps: true }
  \<close>
\<close>

definition castEmail :: "string \<Rightarrow> casted" where
  "castEmail e = Value (toLowerCase (trim e))"

definition schema_errors :: "platform \<Rightarrow> int \<Rightarrow> studentData \<Rightarrow> string list" where
  "schema_errors P now d =
     checkPath (castMessage P ''firstName'' (sd_firstName d)) ''First name is required''
       (\<lambda>s. minlength 2 ''First name must be at least 2 characters'' s
            @ maxlength 50 ''First name cannot exceed 50 characters'' s)
       (castPath P (sd_firstName d))
   @ checkPath (castMessage P ''lastName'' (sd_lastName d)) ''Last name is required''
       (\<lambda>s. minlength 2 ''Last name must be at least 2 characters'' s
            @ maxlength 50 ''Last name cannot exceed 50 characters'' s)
       (castPath P (sd_lastName d))
   @ checkPath (castMessage P ''email'' (Some (JStr (sd_email d)))) ''Email is required''
       (validate_with (isEmail P) ''Please provide a valid email'')
       (castEmail (sd_email d))
   @ checkPath (castMessage P ''phone'' (sd_phone d)) ''Phone number is required''
       (validate_with phonePattern ''Please provide a valid phone number'')
       (castPath P (sd_phone d))
   @ checkPath (castMessage P ''idnumber'' (sd_idnumber d)) ''ID number is required''
       (minlength 6 ''ID number must be at least 6 characters'')
       (castPath P (sd_idnumber d))
   @ checkDateOfBirth now (sd_dateOfBirth d)
   @ checkPath (castMessage P ''course'' (sd_course d)) ''Course selection is required''
       (validate_with (\<lambda>s. s \<in> set courses) ''Please select a valid course'')
       (castPath P (sd_course d))
   @ checkPath (castMessage P ''address'' (sd_address d)) ''Address is required''
       (minlength 10 ''Please provide a complete address'')
       (castPath P (sd_address d))
   @ checkPath (castMessage P ''city'' (sd_city d)) ''City is required'' (\<lambda>s. [])
       (castPath P (sd_city d))
   @ checkPath (castMessage P ''zipCode'' (sd_zipCode d)) ''ZIP code is required'' (\<lambda>s. [])
       (castPath P (sd_zipCode d))
   @ checkPath (castMessage P ''emergencyContact'' (sd_emergencyContact d))
       ''Emergency contact is required'' (\<lambda>s. [])
       (castPath P (sd_emergencyContact d))
   @ checkPath (castMessage P ''emergencyPhone'' (sd_emergencyPhone d))
       ''Emergency phone is required''
       (validate_with phonePattern ''Please provide a valid emergency phone number'')
       (castPath P (sd_emergencyPhone d))"

text \<open>
  The value of a path that validation has accepted; validation has excluded the
  other cases.
\<close>

fun stored :: "casted \<Rightarrow> string" where
  "stored (Value s) = s"
| "stored v = []"

fun storedDate :: "int option \<Rightarrow> int" where
  "storedDate (Some t) = t"
| "storedDate None = 0"

definition document :: "platform \<Rightarrow> run \<Rightarrow> studentData \<Rightarrow> student" where
  "document P c d =
     \<lparr> oid = newId c,
       firstName = stored (castPath P (sd_firstName d)),
       lastName = stored (castPath P (sd_lastName d)),
       email = stored (castEmail (sd_email d)),
       phone = stored (castPath P (sd_phone d)),
       idnumber = stored (castPath P (sd_idnumber d)),
       dateOfBirth = storedDate (sd_dateOfBirth d),
       course = stored (castPath P (sd_course d)),
       address = stored (castPath P (sd_address d)),
       city = stored (castPath P (sd_city d)),
       zipCode = stored (castPath P (sd_zipCode d)),
       emergencyContact = stored (castPath P (sd_emergencyContact d)),
       emergencyPhone = stored (castPath P (sd_emergencyPhone d)),
       enrollmentDate = now_default c,
       status = ''pending'',
       ipAddress = sd_ipAddress d,
       userAgent = sd_userAgent d,
       createdAt = now_saved c,
       updatedAt = now_saved c \<rparr>"

text \<open>
  The insert: the unique indexes on \<^verbatim>\<open>_id\<close>, \<^verbatim>\<open>email\<close> and \<^verbatim>\<open>idnumber\<close> are checked in
  this order, and the first that is violated names the duplicate-key error.
\<close>

definition insertOne :: "student \<Rightarrow> student list \<Rightarrow> exn + student" where
  "insertOne doc coll =
     (if list_ex (\<lambda>r. oid r = oid doc) coll then Inl (MongoDuplicateKey ''_id'')
      else if list_ex (\<lambda>r. email r = email doc) coll then Inl (MongoDuplicateKey ''email'')
      else if list_ex (\<lambda>r. idnumber r = idnumber doc) coll
        then Inl (MongoDuplicateKey ''idnumber'')
      else Inr doc)"

text \<open>\<^verbatim>\<open>new Student(studentData).save()\<close>: validation, then the insert.\<close>

definition save :: "platform \<Rightarrow> run \<Rightarrow> studentData \<Rightarrow> student list \<Rightarrow> exn + student" where
  "save P c d coll =
     (let validationErrors = schema_errors P (now_schema c) d
      in if validationErrors \<noteq> [] then Inl (ValidationError validationErrors)
         else insertOne (document P c d) coll)"

text \<open>
  The duplicate query
  \<^verbatim>\<open>Student.findOne({ $or: [{ email: ... }, { idnumber: ... }] })\<close>. Mongoose casts the
  two values through the setters of their paths before the store compares them: the
  email is trimmed and lower-cased, an id number that is a string is trimmed, any
  other id number is cast as the platform says. The store returns one of the documents
  that match either condition, if there is any; which one is the store's choice.
\<close>

definition idQuery :: "platform \<Rightarrow> jsval option \<Rightarrow> (string \<Rightarrow> bool) option" where
  "idQuery P i =
     (case i of
        Some (JStr s) \<Rightarrow> Some (\<lambda>stored_id. stored_id = trim s)
      | _ \<Rightarrow> castQuery P i)"

definition findOne ::
  "platform \<Rightarrow> run \<Rightarrow> string \<Rightarrow> jsval option \<Rightarrow> student list \<Rightarrow> exn + student option" where
  "findOne P c e i coll =
     (case idQuery P i of
        None \<Rightarrow> Inl CastError
      | Some matchesId \<Rightarrow>
          (let matches =
                 filter (\<lambda>r. email r = toLowerCase (trim e) \<or> matchesId (idnumber r)) coll
           in Inr (if matches = [] then None
                   else Some (matches ! (pick c matches mod length matches)))))"

section \<open>The enrollment handler\<close>

text \<open>
  The request as the handler reads it: the parsed body, the client's address
  (\<^verbatim>\<open>req.ip || req.connection.remoteAddress\<close>) and its \<^verbatim>\<open>User-Agent\<close> header.
\<close>

record request =
  body :: jsobject
  ip :: "string option"
  agent :: "string option"

text \<open>The JSON responses of \<^verbatim>\<open>POST /send\<close>, with the status code they are sent under.\<close>

record enrollment =
  studentId :: string
  applicationId :: string
  data_email :: string
  data_course :: string
  data_status :: string
  submissionTime :: int

record response =
  statusCode :: nat
  success :: bool
  message :: string
  code :: "string option"
  errors :: "string list option"
  data :: "enrollment option"

definition validation_failed :: "string list \<Rightarrow> response" where
  "validation_failed validationErrors =
     \<lparr> statusCode = 400, success = False, message = ''Validation failed'',
       code = None, errors = Some validationErrors, data = None \<rparr>"

definition duplicate_entry :: "string \<Rightarrow> response" where
  "duplicate_entry field =
     \<lparr> statusCode = 409, success = False,
       message = ''A student with this '' @ field @ '' already exists'',
       code = Some ''DUPLICATE_ENTRY'', errors = None, data = None \<rparr>"

definition internal_error :: response where
  "internal_error =
     \<lparr> statusCode = 500, success = False,
       message = ''Internal server error. Please try again later.'',
       code = Some ''INTERNAL_ERROR'', errors = None, data = None \<rparr>"

text \<open>\<^verbatim>\<open>s.slice(-8)\<close>: the last eight characters, or all of a shorter string.\<close>

definition slice8 :: "string \<Rightarrow> string" where
  "slice8 s = drop (length s - 8) s"

definition created :: "student \<Rightarrow> response" where
  "created savedStudent =
     \<lparr> statusCode = 201, success = True,
       message = ''Enrollment application submitted successfully! ''
         @ ''Please check your email for confirmation details.'',
       code = None, errors = None,
       data = Some \<lparr> studentId = oid savedStudent,
                     applicationId = toUpperCase (slice8 (oid savedStudent)),
                     data_email = email savedStudent,
                     data_course = course savedStudent,
                     data_status = status savedStudent,
                     submissionTime = createdAt savedStudent \<rparr> \<rparr>"

text \<open>
  The first statement of the handler logs the body with the id number masked:
  \<^verbatim>\<open>idnumber: req.body.idnumber ? '***' + req.body.idnumber.slice(-4) : undefined\<close>.
  A string and an array have a \<^verbatim>\<open>slice\<close> method; the last four elements of an array
  are then converted to a string for the concatenation. On any other value that is
  truthy the call throws.
\<close>

definition log_received :: "platform \<Rightarrow> jsobject \<Rightarrow> exn + unit" where
  "log_received P b =
     (if truthy (b ''idnumber'') then
        (case b ''idnumber'' of
           Some (JStr s) \<Rightarrow> Inr ()
         | Some (JArr xs) \<Rightarrow>
             (case join P (drop (length xs - 4) xs) of
                Inl e \<Rightarrow> Inl e
              | Inr masked \<Rightarrow> Inr ())
         | _ \<Rightarrow> Inl TypeError)
      else Inr ())"

text \<open>
  \<^verbatim>\<open>
  const sanitizedData = {};
  Object.keys(req.body).forEach(key => {
    sanitizedData[key] = sanitizeInput(req.body[key]);
  });
  \<close>
  The result is given by what reading a property of \<^verbatim>\<open>sanitizedData\<close> returns. An
  assignment to the key \<^verbatim>\<open>__proto__\<close> creates no property: it runs the setter of
  \<^verbatim>\<open>Object.prototype\<close>, which makes an object the prototype of \<^verbatim>\<open>sanitizedData\<close>. A
  property that \<^verbatim>\<open>sanitizedData\<close> does not own is then read from that object, as the
  body gave it. (An array has no property named like a field; the handler reads no
  other names, and never \<^verbatim>\<open>__proto__\<close> itself.)
\<close>

definition sanitizedData :: "jsobject \<Rightarrow> jsobject" where
  "sanitizedData b =
     (\<lambda>key. if key = ''__proto__'' then None
            else (case b key of
                    Some v \<Rightarrow> Some (sanitizeInput v)
                  | None \<Rightarrow>
                      (case b ''__proto__'' of
                         Some (JObj members) \<Rightarrow> property members key
                       | _ \<Rightarrow> None)))"

text \<open>\<^verbatim>\<open>sanitizedData.email.toLowerCase()\<close>.\<close>

fun lowerCased :: "jsval option \<Rightarrow> exn + string" where
  "lowerCased (Some (JStr s)) = Inr (toLowerCase s)"
| "lowerCased v = Inl TypeError"

text \<open>The object literal \<^verbatim>\<open>studentData\<close>; building the date can throw.\<close>

definition prepare :: "platform \<Rightarrow> request \<Rightarrow> jsobject \<Rightarrow> string \<Rightarrow> exn + studentData" where
  "prepare P req sanitized e =
     (case newDate P (sanitized ''dateOfBirth'') of
        Inl err \<Rightarrow> Inl err
      | Inr birthDate \<Rightarrow>
          Inr \<lparr> sd_firstName = sanitized ''firstName'',
                sd_lastName = sanitized ''lastName'',
                sd_email = e,
                sd_phone = sanitized ''phone'',
                sd_idnumber = sanitized ''idnumber'',
                sd_dateOfBirth = birthDate,
                sd_course = sanitized ''course'',
                sd_address = sanitized ''address'',
                sd_city = sanitized ''city'',
                sd_zipCode = sanitized ''zipCode'',
                sd_emergencyContact = sanitized ''emergencyContact'',
                sd_emergencyPhone = sanitized ''emergencyPhone'',
                sd_ipAddress = ip req,
                sd_userAgent = agent req \<rparr>)"

text \<open>
  The notification stage sits in a \<^verbatim>\<open>try\<close> of its own whose \<^verbatim>\<open>catch\<close> only logs; the
  line it writes to the console is all that depends on the outcome.
\<close>

fun notify :: "mail_outcome \<Rightarrow> string list" where
  "notify Delivered = [''All emails sent successfully'']"
| "notify TransporterFailed = [''Email sending failed'']"
| "notify SendFailed = [''Email sending failed'']"

text \<open>
  The \<^verbatim>\<open>try\<close> block of \<^verbatim>\<open>app.post('/send', ...)\<close>:
  \<^verbatim>\<open>
  const validationErrors = validateEnrollmentData(sanitizedData);
  if (validationErrors.length > 0) {
    return res.status(400).json({ success: false, message: 'Validation failed',
      errors: validationErrors });
  }
  const existingStudent = await Student.findOne({
    $or: [ { email: sanitizedData.email.toLowerCase() },
           { idnumber: sanitizedData.idnumber } ] });
  if (existingStudent) {
    const duplicateField =
      existingStudent.email === sanitizedData.email.toLowerCase() ? 'email' : 'ID number';
    return res.status(409).json({ success: false,
      message: `A student with this ${duplicateField} already exists`,
      code: 'DUPLICATE_ENTRY' });
  }
  const studentData = { firstName: sanitizedData.firstName, ...,
    email: sanitizedData.email.toLowerCase(), ...,
    dateOfBirth: new Date(sanitizedData.dateOfBirth), ...,
    ipAddress: req.ip || req.connection.remoteAddress, userAgent: req.get('User-Agent') };
  const newStudent = new Student(studentData);
  const savedStudent = await newStudent.save();
  try { ... await Promise.all(emailPromises); ... }
  catch (emailError) { console.error(..., emailError); }
  res.status(201).json({ success: true, message: '...',
    data: { studentId: savedStudent._id,
            applicationId: savedStudent._id.toString().slice(-8).toUpperCase(),
            email: savedStudent.email, course: savedStudent.course,
            status: savedStudent.status,
            submissionTime: savedStudent.createdAt || new Date() } });
  \<close>
  The result is the response, the document this request has written (if any) and the
  console lines of the notification stage; \<open>coll\<close> is the collection when the duplicate
  query runs, and the save meets \<open>coll @ between c\<close>.
\<close>

definition send_try ::
  "platform \<Rightarrow> run \<Rightarrow> request \<Rightarrow> student list \<Rightarrow> exn + (response \<times> student option \<times> string list)" where
  "send_try P c req coll =
     (case log_received P (body req) of
        Inl e \<Rightarrow> Inl e
      | Inr u \<Rightarrow>
     (let sanitized = sanitizedData (body req) in
      case validateEnrollmentData P (now_validate c) sanitized of
        Inl e \<Rightarrow> Inl e
      | Inr validationErrors \<Rightarrow>
          if length validationErrors > 0
          then Inr (validation_failed validationErrors, None, [])
          else
     (case lowerCased (sanitized ''email'') of
        Inl e \<Rightarrow> Inl e
      | Inr e \<Rightarrow>
     (case findOne P c e (sanitized ''idnumber'') coll of
        Inl err \<Rightarrow> Inl err
      | Inr (Some existingStudent) \<Rightarrow>
          Inr (duplicate_entry (if email existingStudent = e then ''email'' else ''ID number''),
               None, [])
      | Inr None \<Rightarrow>
     (case prepare P req sanitized e of
        Inl err \<Rightarrow> Inl err
      | Inr newStudent \<Rightarrow>
     (case save P c newStudent (coll @ between c) of
        Inl err \<Rightarrow> Inl err
      | Inr savedStudent \<Rightarrow>
          Inr (created savedStudent, Some savedStudent, notify (mail c))))))))"

text \<open>
  The \<^verbatim>\<open>catch\<close> block:
  \<^verbatim>\<open>
  if (error.code === 11000) {
    const field = Object.keys(error.keyValue)[0];
    return res.status(409).json({ success: false,
      message: `A student with this ${field} already exists`, code: 'DUPLICATE_ENTRY' });
  }
  if (error.name === 'ValidationError') {
    const validationErrors = Object.values(error.errors).map(err => err.message);
    return res.status(400).json({ success: false, message: 'Validation failed',
      errors: validationErrors });
  }
  res.status(500).json({ success: false,
    message: 'Internal server error. Please try again later.', code: 'INTERNAL_ERROR' });
  \<close>
\<close>

fun send_catch :: "exn \<Rightarrow> response" where
  "send_catch (MongoDuplicateKey field) = duplicate_entry field"
| "send_catch (ValidationError validationErrors) = validation_failed validationErrors"
| "send_catch TypeError = internal_error"
| "send_catch CastError = internal_error"

definition send ::
  "platform \<Rightarrow> run \<Rightarrow> request \<Rightarrow> student list \<Rightarrow> response \<times> student option \<times> string list" where
  "send P c req coll =
     (case send_try P c req coll of
        Inr result \<Rightarrow> result
      | Inl error \<Rightarrow> (send_catch error, None, []))"

text \<open>
  The pipeline's run of the Validator on a request: the handler has reached the call
  and \<open>validateEnrollmentData\<close> has returned the list \<open>errs\<close>.
\<close>

definition validator_reports :: "platform \<Rightarrow> run \<Rightarrow> request \<Rightarrow> string list \<Rightarrow> bool" where
  "validator_reports P c req errs =
     (log_received P (body req) = Inr () \<and>
      validateEnrollmentData P (now_validate c) (sanitizedData (body req)) = Inr errs)"

section \<open>Fetching a record by its identity\<close>



definition hexDigit :: "nat \<Rightarrow> char" where
  "hexDigit n = ''0123456789abcdef'' ! (n mod 16)"


datatype student_reply = InvalidId | NotFound | Found student

fun reply_status :: "student_reply \<Rightarrow> nat" where
  "reply_status InvalidId = 400"
| "reply_status NotFound = 404"
| "reply_status (Found s) = 200"



section \<open>Routing\<close>

text \<open>
  \<^verbatim>\<open>
  app.post('/send', formLimiter, async (req, res) => { ... });

  // Alternative endpoint (backward compatibility)
  app.post('/api/route', (req, res, next) => {
    // Redirect to main endpoint
    req.url = '/send';
    next();
  }, formLimiter, async (req, res) => {
    // This will be handled by the /send route above
  });
  \<close>
  Express walks its routes in the order of registration and, inside a route, its
  handlers in order; \<^verbatim>\<open>next()\<close> passes control to the next handler of the same route
  and, after the last one, to the routes registered later. A handler that neither
  responds nor calls \<^verbatim>\<open>next()\<close> leaves the request without a response. Only the two
  enrollment routes are modelled; a request they pass on is left to the later layers,
  and the middleware registered before them (security headers, the general rate
  limiter, CORS, the body parsers) is taken to have passed the request on.
\<close>

datatype handler = formLimiter | sendHandler | redirectToSend | emptyHandler

datatype reaction =
    Respond response "student option" "string list"
  | CallNext string
  | NoReply

datatype outcome =
    Replied response "student option" "string list"
  | Hangs
  | PassedOn string

definition too_many :: response where
  "too_many =
     \<lparr> statusCode = 429, success = False,
       message = ''Too many enrollment attempts. Please try again in 15 minutes.'',
       code = None, errors = None, data = None \<rparr>"

fun invoke ::
  "platform \<Rightarrow> run \<Rightarrow> request \<Rightarrow> student list \<Rightarrow> handler \<Rightarrow> string \<Rightarrow> reaction" where
  "invoke P c req coll formLimiter url =
     (if form_limited c then Respond too_many None [] else CallNext url)"
| "invoke P c req coll sendHandler url =
     (case send P c req coll of (r, w, l) \<Rightarrow> Respond r w l)"
| "invoke P c req coll redirectToSend url = CallNext ''/send''"
| "invoke P c req coll emptyHandler url = NoReply"

fun dispatch ::
  "platform \<Rightarrow> run \<Rightarrow> request \<Rightarrow> student list \<Rightarrow> handler list \<Rightarrow> string \<Rightarrow> outcome" where
  "dispatch P c req coll [] url = PassedOn url"
| "dispatch P c req coll (h # hs) url =
     (case invoke P c req coll h url of
        Respond r w l \<Rightarrow> Replied r w l
      | NoReply \<Rightarrow> Hangs
      | CallNext url' \<Rightarrow> dispatch P c req coll hs url')"

fun handle ::
  "platform \<Rightarrow> run \<Rightarrow> request \<Rightarrow> student list \<Rightarrow> (string \<times> handler list) list \<Rightarrow> string \<Rightarrow> outcome" where
  "handle P c req coll [] url = PassedOn url"
| "handle P c req coll ((path, stack) # routes) url =
     (if url = path then
        (case dispatch P c req coll stack url of
           PassedOn url' \<Rightarrow> handle P c req coll routes url'
         | result \<Rightarrow> result)
      else handle P c req coll routes url)"

definition postRoutes :: "(string \<times> handler list) list" where
  "postRoutes =
     [(''/send'', [formLimiter, sendHandler]),
      (''/api/route'', [redirectToSend, formLimiter, emptyHandler])]"

definition post :: "platform \<Rightarrow> run \<Rightarrow> request \<Rightarrow> student list \<Rightarrow> string \<Rightarrow> outcome" where
  "post P c req coll url = handle P c req coll postRoutes url"

section \<open>Notions of the statements\<close>


text \<open>The string fields of a stored document other than the email, by name.\<close>

definition plainFields :: "string list" where
  "plainFields =
     [''firstName'', ''lastName'', ''phone'', ''idnumber'', ''course'', ''address'',
      ''city'', ''zipCode'', ''emergencyContact'', ''emergencyPhone'']"

definition student_field :: "student \<Rightarrow> string \<Rightarrow> string option" where
  "student_field st =
     map_of
       [(''firstName'', firstName st), (''lastName'', lastName st),
        (''phone'', phone st), (''idnumber'', idnumber st), (''course'', course st),
        (''address'', address st), (''city'', city st), (''zipCode'', zipCode st),
        (''emergencyContact'', emergencyContact st),
        (''emergencyPhone'', emergencyPhone st)]"

text \<open>The same fields of the object handed to \<^verbatim>\<open>new Student(...)\<close>.\<close>

definition studentData_field :: "studentData \<Rightarrow> string \<Rightarrow> jsval option" where
  "studentData_field d field =
     (case map_of
             [(''firstName'', sd_firstName d), (''lastName'', sd_lastName d),
              (''phone'', sd_phone d), (''idnumber'', sd_idnumber d),
              (''course'', sd_course d), (''address'', sd_address d),
              (''city'', sd_city d), (''zipCode'', sd_zipCode d),
              (''emergencyContact'', sd_emergencyContact d),
              (''emergencyPhone'', sd_emergencyPhone d)] field of
        None \<Rightarrow> None
      | Some v \<Rightarrow> v)"

section \<open>Sample values\<close>

text \<open>
  A concrete platform, clock and submission, on which the model is evaluated: an
  email check that asks for an \<open>@\<close> and no white space, a date parser that knows
  three ISO dates, decimal printing of numbers, a cast that refuses every array and
  object, and a query that casts a number, asks for one of the strings of an array of
  strings and refuses every other value that is not a string. The sample store
  returns the first match in its natural order.
\<close>

function decimal :: "int \<Rightarrow> string" where
  "decimal n =
     (if n < 10 then [hexDigit (nat n)]
      else decimal (n div 10) @ [hexDigit (nat (n mod 10))])"
  by pat_completeness auto
termination
  by (relation "measure nat") auto

definition showInt :: "int \<Rightarrow> string" where
  "showInt n = (if n < 0 then CHR ''-'' # decimal (- n) else decimal n)"

definition sampleDates :: "string \<Rightarrow> int option" where
  "sampleDates s =
     (if s = ''2000-01-01'' then Some 946684800000
      else if s = ''2011-06-01'' then Some 1306886400000
      else if s = ''1925-06-01'' then Some (- 1407024000000)
      else None)"

fun sampleQuery :: "jsval option \<Rightarrow> (string \<Rightarrow> bool) option" where
  "sampleQuery (Some (JNum n)) = Some (\<lambda>stored_id. stored_id = showInt n)"
| "sampleQuery (Some (JArr xs)) =
     (if list_all (\<lambda>x. case x of JStr s \<Rightarrow> True | _ \<Rightarrow> False) xs
      then Some (\<lambda>stored_id. list_ex (\<lambda>x. case x of JStr s \<Rightarrow> stored_id = trim s
                                                       | _ \<Rightarrow> False) xs)
      else None)"
| "sampleQuery v = None"

definition samplePlatform :: platform where
  "samplePlatform =
     \<lparr> isEmail = (\<lambda>s. CHR ''@'' \<in> set s \<and> \<not> list_ex isWhiteSpace s),
       parseDate = sampleDates,
       numToString = showInt,
       castNested = (\<lambda>v. None),
       castMessage = (\<lambda>path v. ''Cast to string failed at path '' @ path),
       castQuery = sampleQuery \<rparr>"

definition sampleRun :: run where
  "sampleRun =
     \<lparr> now_validate = 1793664000000, now_default = 1793664000001,
       now_schema = 1793664000002, now_saved = 1793664000003,
       newId = ''65f1a2b3c4d5e6f708192a3b'', pick = (\<lambda>matches. 0), between = [],
       mail = Delivered, form_limited = False \<rparr>"

definition annBody :: jsobject where
  "annBody =
     map_of
       [(''firstName'', JStr ''Ann''), (''lastName'', JStr ''Lee''),
        (''email'', JStr ''ANN@X.COM''), (''phone'', JStr ''123-456-7890''),
        (''idnumber'', JStr ''ID12345''), (''dateOfBirth'', JStr ''2000-01-01''),
        (''course'', JStr ''Computer Science''), (''address'', JStr ''12 Main Street''),
        (''city'', JStr ''Springfield''), (''zipCode'', JStr ''00001''),
        (''emergencyContact'', JStr ''Bob Lee''),
        (''emergencyPhone'', JStr ''111-222-3333'')]"

definition request_of :: "jsobject \<Rightarrow> request" where
  "request_of b = \<lparr> body = b, ip = Some ''127.0.0.1'', agent = None \<rparr>"

definition annStudent :: student where
  "annStudent =
     \<lparr> oid = ''65f1a2b3c4d5e6f708192a3b'',
       firstName = ''Ann'', lastName = ''Lee'', email = ''ann@x.com'',
       phone = ''123-456-7890'', idnumber = ''ID12345'', dateOfBirth = 946684800000,
       course = ''Computer Science'', address = ''12 Main Street'',
       city = ''Springfield'', zipCode = ''00001'', emergencyContact = ''Bob Lee'',
       emergencyPhone = ''111-222-3333'', enrollmentDate = 1793664000001,
       status = ''pending'', ipAddress = Some ''127.0.0.1'', userAgent = None,
       createdAt = 1793664000003, updatedAt = 1793664000003 \<rparr>"

text \<open>
  Two documents of other students: one shares Ann's id number, the other her email.
\<close>

definition bobStudent :: student where
  "bobStudent =
     annStudent \<lparr> oid := ''65f1a2b3c4d5e6f708190001'', firstName := ''Bob'',
                  email := ''bob@x.com'' \<rparr>"

definition amyStudent :: student where
  "amyStudent =
     annStudent \<lparr> oid := ''65f1a2b3c4d5e6f708190002'', firstName := ''Amy'',
                  idnumber := ''ID99999'' \<rparr>"

text \<open>
  A submission that leaves most fields out and gets the others wrong.
\<close>

definition sparseBody :: jsobject where
  "sparseBody =
     map_of
       [(''firstName'', JStr ''   ''), (''email'', JStr ''not-an-email''),
        (''phone'', JStr ''12''), (''dateOfBirth'', JStr ''2011-06-01'')]"

section \<open>Properties of strings\<close>

lemma set_trim_subset: "set (trim s) \<subseteq> set s"
proof -
  have "set (trim s) \<subseteq> set (rev (dropWhile isWhiteSpace s))"
    unfolding trim_def using set_dropWhileD by fastforce
  also have "\<dots> \<subseteq> set s"
    using set_dropWhileD by fastforce
  finally show ?thesis .
qed

lemma dropWhile_head: "dropWhile P xs \<noteq> [] \<Longrightarrow> \<not> P (hd (dropWhile P xs))"
  by (induction xs) auto

lemma dropWhile_keeps_last: "dropWhile P xs \<noteq> [] \<Longrightarrow> last (dropWhile P xs) = last xs"
  by (induction xs) (auto split: if_splits)

lemma dropWhile_fixed: "xs = [] \<or> \<not> P (hd xs) \<Longrightarrow> dropWhile P xs = xs"
  by (cases xs) auto

lemma trim_ends:
  assumes "trim s \<noteq> []"
  shows "\<not> isWhiteSpace (hd (trim s))" and "\<not> isWhiteSpace (last (trim s))"
proof -
  let ?t = "dropWhile isWhiteSpace s"
  let ?u = "dropWhile isWhiteSpace (rev ?t)"
  from assms have u: "?u \<noteq> []" by (simp add: trim_def)
  then have "rev ?t \<noteq> []" by (metis dropWhile.simps(1))
  then have t: "?t \<noteq> []" by simp
  have "last (trim s) = hd ?u" using u by (simp add: trim_def last_rev)
  then show "\<not> isWhiteSpace (last (trim s))" using dropWhile_head [OF u] by simp
  have "hd (trim s) = last ?u" using u by (simp add: trim_def hd_rev)
  also have "\<dots> = last (rev ?t)" using dropWhile_keeps_last [OF u] .
  also have "\<dots> = hd ?t" using t by (simp add: last_rev)
  finally show "\<not> isWhiteSpace (hd (trim s))" using dropWhile_head [OF t] by simp
qed

lemma trim_fixed:
  assumes "xs = [] \<or> (\<not> isWhiteSpace (hd xs) \<and> \<not> isWhiteSpace (last xs))"
  shows "trim xs = xs"
proof (cases "xs = []")
  case True
  then show ?thesis by (simp add: trim_def)
next
  case False
  with assms have h: "\<not> isWhiteSpace (hd xs)" and l: "\<not> isWhiteSpace (last xs)" by auto
  have "dropWhile isWhiteSpace xs = xs" using h by (intro dropWhile_fixed) simp
  moreover have "dropWhile isWhiteSpace (rev xs) = rev xs"
    using l False by (intro dropWhile_fixed) (simp add: hd_rev)
  ultimately show ?thesis by (simp add: trim_def)
qed

lemma trim_trim: "trim (trim s) = trim s"
  using trim_ends [of s] by (intro trim_fixed) auto




lemma char_from_code: "of_char c = (n::nat) \<Longrightarrow> c = char_of n"
  by auto

lemma white_chars:
  "char_of (9::nat) = CHR 0x09" "char_of (10::nat) = CHR 0x0A" "char_of (11::nat) = CHR 0x0B"
  "char_of (12::nat) = CHR 0x0C" "char_of (13::nat) = CHR 0x0D" "char_of (32::nat) = CHR 0x20"
  "char_of (160::nat) = CHR 0xA0"
  by code_simp+

lemma isWhiteSpace_code: "isWhiteSpace c = (of_char c \<in> {9, 10, 11, 12, 13, 32, 160 :: nat})"
proof
  assume "isWhiteSpace c"
  then show "of_char c \<in> {9, 10, 11, 12, 13, 32, 160 :: nat}"
    unfolding isWhiteSpace_def by auto
next
  assume "of_char c \<in> {9, 10, 11, 12, 13, 32, 160 :: nat}"
  then show "isWhiteSpace c"
    unfolding isWhiteSpace_def using white_chars by (auto dest!: char_from_code)
qed

lemma lowerChar_space: "isWhiteSpace (lowerChar c) = isWhiteSpace c"
  by (auto simp: isWhiteSpace_code lowerChar_def Let_def)

lemma lowerChar_idem: "lowerChar (lowerChar c) = lowerChar c"
  by (auto simp: lowerChar_def Let_def)

lemma trim_toLowerCase: "trim (toLowerCase s) = toLowerCase (trim s)"
proof -
  have w: "isWhiteSpace \<circ> lowerChar = isWhiteSpace" by (auto simp: lowerChar_space)
  show ?thesis
    by (simp add: trim_def toLowerCase_def dropWhile_map rev_map w)
qed

lemma toLowerCase_idem: "toLowerCase (toLowerCase s) = toLowerCase s"
  by (simp add: toLowerCase_def lowerChar_idem)

lemma filter_trim_clean:
  assumes "\<forall>c \<in> set s. \<not> isMarkup c"
  shows "filter (\<lambda>c. \<not> isMarkup c) (trim s) = trim s"
  using assms set_trim_subset [of s] by (intro filter_True) auto

section \<open>Properties of the validator\<close>

lemma validate_returns:
  assumes "validateEnrollmentData P now sdata = Inr errs"
  shows "\<exists>r e1 e2 e3 a.
           required_errors P sdata requiredFields = Inr r
         \<and> email_errors P (sdata ''email'') = Inr e1
         \<and> phone_errors ''Please provide a valid phone number'' (sdata ''phone'') = Inr e2
         \<and> phone_errors ''Please provide a valid emergency phone number''
               (sdata ''emergencyPhone'') = Inr e3
         \<and> age_errors P now (sdata ''dateOfBirth'') = Inr a
         \<and> errs = r @ e1 @ e2 @ e3 @ a"
  using assms by (auto simp: validateEnrollmentData_def split: sum.splits)

lemma email_errors_string:
  "email_errors P v = Inr e \<Longrightarrow> truthy v \<Longrightarrow> \<exists>s. v = Some (JStr s) \<and> s \<noteq> []"
  by (auto simp: email_errors_def split: option.splits jsval.splits)

lemma email_errors_subset:
  "email_errors P v = Inr e \<Longrightarrow> set e \<subseteq> {''Please provide a valid email address''}"
  by (auto simp: email_errors_def split: option.splits jsval.splits if_splits)

lemma phone_errors_subset: "phone_errors msg v = Inr e \<Longrightarrow> set e \<subseteq> {msg}"
  by (auto simp: phone_errors_def split: option.splits jsval.splits if_splits)

lemma required_errors_form:
  "required_errors P sdata fs = Inr r \<Longrightarrow>
   set r \<subseteq> (\<lambda>field. field @ '' is required'') ` set fs"
proof (induction fs arbitrary: r)
  case Nil
  then show ?case by simp
next
  case (Cons field others)
  then show ?case by (auto split: sum.splits if_splits)
qed

lemma required_errors_passed:
  "required_errors P sdata fs = Inr [] \<Longrightarrow> field \<in> set fs \<Longrightarrow>
   isMissing P (sdata field) = Inr False"
proof (induction fs)
  case Nil
  then show ?case by simp
next
  case (Cons f others)
  then show ?case by (auto split: sum.splits if_splits)
qed

lemma isMissing_truthy: "isMissing P v = Inr False \<Longrightarrow> truthy v"
  by (auto simp: isMissing_def split: option.splits if_splits)

lemma age_message_not_required:
  "field @ '' is required'' \<noteq> ''Age must be between 16 and 100 years''"
proof
  assume "field @ '' is required'' = ''Age must be between 16 and 100 years''"
  then have "last (field @ '' is required'') = last ''Age must be between 16 and 100 years''"
    by (rule arg_cong)
  then show False by simp
qed

lemma age_message_source:
  assumes "validateEnrollmentData P now sdata = Inr errs"
  shows "\<exists>a. age_errors P now (sdata ''dateOfBirth'') = Inr a
           \<and> (''Age must be between 16 and 100 years'' \<in> set errs)
             = (''Age must be between 16 and 100 years'' \<in> set a)"
proof -
  from validate_returns [OF assms] obtain r e1 e2 e3 a where
    r: "required_errors P sdata requiredFields = Inr r" and
    e1: "email_errors P (sdata ''email'') = Inr e1" and
    e2: "phone_errors ''Please provide a valid phone number'' (sdata ''phone'') = Inr e2" and
    e3: "phone_errors ''Please provide a valid emergency phone number''
           (sdata ''emergencyPhone'') = Inr e3" and
    a: "age_errors P now (sdata ''dateOfBirth'') = Inr a" and
    errs: "errs = r @ e1 @ e2 @ e3 @ a"
    by blast
  have "''Age must be between 16 and 100 years'' \<notin> set r"
    using required_errors_form [OF r] age_message_not_required by auto
  moreover have "''Age must be between 16 and 100 years'' \<notin> set e1"
    using email_errors_subset [OF e1] by auto
  moreover have "''Age must be between 16 and 100 years'' \<notin> set e2"
    using phone_errors_subset [OF e2] by auto
  moreover have "''Age must be between 16 and 100 years'' \<notin> set e3"
    using phone_errors_subset [OF e3] by auto
  ultimately show ?thesis using a by (simp add: errs)
qed

section \<open>Properties of the handler\<close>

lemma passes_email:
  assumes "validator_reports P c req []"
  shows "\<exists>e. sanitizedData (body req) ''email'' = Some (JStr e) \<and> e \<noteq> []"
proof -
  let ?d = "sanitizedData (body req)"
  from assms have v: "validateEnrollmentData P (now_validate c) ?d = Inr []"
    by (simp add: validator_reports_def)
  from validate_returns [OF v] obtain e1 where
    e1: "email_errors P (?d ''email'') = Inr e1" and
    r: "required_errors P ?d requiredFields = Inr []"
    by auto
  have "isMissing P (?d ''email'') = Inr False"
    using r by (rule required_errors_passed) (simp add: requiredFields_def)
  then have "truthy (?d ''email'')" by (rule isMissing_truthy)
  with e1 show ?thesis by (rule email_errors_string)
qed

lemma send_after_validation:
  assumes "validator_reports P c req []"
    and "sanitizedData (body req) ''email'' = Some (JStr e)"
  shows "send P c req coll =
     (case findOne P c (toLowerCase e) (sanitizedData (body req) ''idnumber'') coll of
        Inl err \<Rightarrow> (send_catch err, None, [])
      | Inr (Some existingStudent) \<Rightarrow>
          (duplicate_entry
             (if email existingStudent = toLowerCase e then ''email'' else ''ID number''),
           None, [])
      | Inr None \<Rightarrow>
          (case prepare P req (sanitizedData (body req)) (toLowerCase e) of
             Inl err \<Rightarrow> (send_catch err, None, [])
           | Inr d \<Rightarrow>
               (case save P c d (coll @ between c) of
                  Inl err \<Rightarrow> (send_catch err, None, [])
                | Inr savedStudent \<Rightarrow>
                    (created savedStudent, Some savedStudent, notify (mail c)))))"
proof -
  from assms(1) have log: "log_received P (body req) = Inr ()"
    and v: "validateEnrollmentData P (now_validate c) (sanitizedData (body req)) = Inr []"
    by (simp_all add: validator_reports_def)
  have l: "lowerCased (sanitizedData (body req) ''email'') = Inr (toLowerCase e)"
    by (simp add: assms(2))
  show ?thesis
    by (simp add: send_def send_try_def Let_def log v l split: sum.splits option.splits)
qed

lemma send_written:
  assumes "send P c req coll = (resp, Some st, console)"
  shows "\<exists>e d. validator_reports P c req []
           \<and> sanitizedData (body req) ''email'' = Some (JStr e)
           \<and> findOne P c (toLowerCase e) (sanitizedData (body req) ''idnumber'') coll
               = Inr None
           \<and> prepare P req (sanitizedData (body req)) (toLowerCase e) = Inr d
           \<and> save P c d (coll @ between c) = Inr st
           \<and> resp = created st \<and> console = notify (mail c)"
proof -
  have log: "log_received P (body req) = Inr ()"
  proof (cases "log_received P (body req)")
    case (Inl x)
    with assms show ?thesis by (simp add: send_def send_try_def)
  qed simp
  obtain errs where
    v: "validateEnrollmentData P (now_validate c) (sanitizedData (body req)) = Inr errs"
  proof (cases "validateEnrollmentData P (now_validate c) (sanitizedData (body req))")
    case (Inl x)
    with assms log show ?thesis by (simp add: send_def send_try_def Let_def)
  qed simp
  have nil: "errs = []"
  proof (rule ccontr)
    assume "errs \<noteq> []"
    with assms log v show False by (simp add: send_def send_try_def Let_def)
  qed
  have rep: "validator_reports P c req []"
    using log v nil by (simp add: validator_reports_def)
  from passes_email [OF rep] obtain e where
    e: "sanitizedData (body req) ''email'' = Some (JStr e)" by blast
  let ?q = "findOne P c (toLowerCase e) (sanitizedData (body req) ''idnumber'') coll"
  let ?p = "prepare P req (sanitizedData (body req)) (toLowerCase e)"
  note after = send_after_validation [OF rep e, of coll]
  have q: "?q = Inr None"
  proof (cases ?q)
    case (Inl err)
    with assms after show ?thesis by simp
  next
    case (Inr found)
    with assms after show ?thesis by (cases found) simp_all
  qed
  obtain d where p: "?p = Inr d"
  proof (cases ?p)
    case (Inl err)
    with assms after q show ?thesis by simp
  qed simp
  obtain saved where s: "save P c d (coll @ between c) = Inr saved"
  proof (cases "save P c d (coll @ between c)")
    case (Inl err)
    with assms after q p show ?thesis by simp
  qed simp
  from assms after q p s have "resp = created st" "saved = st" "console = notify (mail c)"
    by auto
  with rep e q p s show ?thesis by blast
qed

lemma prepare_fields:
  assumes "prepare P req sanitized e = Inr d"
  shows "sd_email d = e"
    and "newDate P (sanitized ''dateOfBirth'') = Inr (sd_dateOfBirth d)"
    and "sd_firstName d = sanitized ''firstName''"
    and "sd_lastName d = sanitized ''lastName''"
    and "sd_phone d = sanitized ''phone''"
    and "sd_idnumber d = sanitized ''idnumber''"
    and "sd_course d = sanitized ''course''"
    and "sd_address d = sanitized ''address''"
    and "sd_city d = sanitized ''city''"
    and "sd_zipCode d = sanitized ''zipCode''"
    and "sd_emergencyContact d = sanitized ''emergencyContact''"
    and "sd_emergencyPhone d = sanitized ''emergencyPhone''"
  using assms by (auto simp: prepare_def split: sum.splits)

lemma save_stored:
  assumes "save P c d coll = Inr st"
  shows "schema_errors P (now_schema c) d = []" and "st = document P c d"
    and "\<not> list_ex (\<lambda>r. oid r = oid st) coll"
  using assms by (auto simp: save_def insertOne_def Let_def split: if_splits)

lemma document_mail: "document P (c \<lparr> mail := m \<rparr>) d = document P c d"
  by (simp add: document_def)

lemma save_mail: "save P (c \<lparr> mail := m \<rparr>) d xs = save P c d xs"
  by (simp add: save_def Let_def document_mail)

lemma findOne_mail: "findOne P (c \<lparr> mail := m \<rparr>) e i coll = findOne P c e i coll"
  by (simp add: findOne_def Let_def split: option.splits)

section \<open>Sanitization: what holds of \<open>sanitizeInput\<close>\<close>

lemma stored_document_field:
  assumes "save P c d coll = Inr st" and "field \<in> set plainFields"
  shows "student_field st field = Some (stored (castPath P (studentData_field d field)))"
proof -
  note st = save_stored(2) [OF assms(1)]
  from assms(2) show ?thesis
    by (auto simp: plainFields_def student_field_def studentData_field_def st document_def)
qed

lemma prepared_field:
  assumes "prepare P req sanitized e = Inr d" and "field \<in> set plainFields"
  shows "studentData_field d field = sanitized field"
  using assms(2) prepare_fields [OF assms(1)]
  by (auto simp: plainFields_def studentData_field_def)

text \<open>
  A field the body does not own but gives inside an object under the key \<^verbatim>\<open>__proto__\<close>
  is read from that object, as the body gave it.
\<close>

lemma inherited_field_is_read_unsanitized:
  assumes "b ''__proto__'' = Some (JObj members)" and "b key = None"
    and "key \<noteq> ''__proto__''"
  shows "sanitizedData b key = property members key"
  using assms by (simp add: sanitizedData_def)

text \<open>
  Claim C10, amended. \<open>sanitizeInput\<close> trims first and removes the markup characters
  second, so a removed character can uncover white space: \<open>sanitizeInput\<close> is not
  idempotent and its output can start or end with white space. What holds on a
  string: the output never contains \<open><\<close>, \<open>>\<close>, \<open>"\<close> or \<open>'\<close>; a second application only
  trims the first result, and that is a fixed point; on a string that holds none of
  the four characters \<open>sanitizeInput\<close> is idempotent and its output neither starts nor
  ends with white space. Every value that is not a string (a number, a boolean, an
  array or object, \<^verbatim>\<open>null\<close>) is returned unchanged, so such a value of the body reaches
  validation and persistence unsanitized: \<open>sanitizedData\<close>, which the validator reads,
  holds it as the body gave it, so does the object handed to \<^verbatim>\<open>new Student(...)\<close>, and
  the field of a document that is written holds what Mongoose casts that very value
  to.
\<close>

theorem sanitizeInput_normalizes:
  "(\<exists>t. sanitizeInput (JStr s) = JStr t
        \<and> list_all (\<lambda>c. \<not> isMarkup c) t
        \<and> sanitizeInput (sanitizeInput (JStr s)) = JStr (trim t)
        \<and> sanitizeInput (JStr (trim t)) = JStr (trim t)
        \<and> (list_all (\<lambda>c. \<not> isMarkup c) s \<longrightarrow>
             sanitizeInput (sanitizeInput (JStr s)) = sanitizeInput (JStr s)
             \<and> (t \<noteq> [] \<longrightarrow> \<not> isWhiteSpace (hd t) \<and> \<not> isWhiteSpace (last t))))
   \<and> ((\<forall>u. v \<noteq> JStr u) \<longrightarrow>
        sanitizeInput v = v
        \<and> (\<forall>b key. key \<noteq> ''__proto__'' \<and> b key = Some v
              \<longrightarrow> sanitizedData b key = Some v)
        \<and> (\<forall>P req e d field.
              field \<in> set plainFields \<and> body req field = Some v
              \<and> prepare P req (sanitizedData (body req)) e = Inr d
              \<longrightarrow> studentData_field d field = Some v)
        \<and> (\<forall>P c req coll resp st console field.
              field \<in> set plainFields \<and> body req field = Some v
              \<and> send P c req coll = (resp, Some st, console)
              \<longrightarrow> student_field st field = Some (stored (castPath P (Some v)))))"
proof (intro conjI exI impI allI)
  let ?t = "filter (\<lambda>c. \<not> isMarkup c) (trim s)"
  show "sanitizeInput (JStr s) = JStr ?t" by simp
  show clean: "list_all (\<lambda>c. \<not> isMarkup c) ?t" by (simp add: list_all_iff)
  then have t: "\<forall>c \<in> set ?t. \<not> isMarkup c" by (simp add: list_all_iff)
  show twice: "sanitizeInput (sanitizeInput (JStr s)) = JStr (trim ?t)"
    using filter_trim_clean [OF t] by simp
  have "\<forall>c \<in> set (trim ?t). \<not> isMarkup c" using t set_trim_subset [of ?t] by auto
  then have "filter (\<lambda>c. \<not> isMarkup c) (trim (trim ?t)) = trim (trim ?t)"
    by (rule filter_trim_clean)
  then have "filter (\<lambda>c. \<not> isMarkup c) (trim (trim ?t)) = trim ?t"
    by (simp only: trim_trim)
  then show "sanitizeInput (JStr (trim ?t)) = JStr (trim ?t)"
    by (simp only: sanitizeInput.simps)
  {
    assume "list_all (\<lambda>c. \<not> isMarkup c) s"
    then have "\<forall>c \<in> set s. \<not> isMarkup c" by (simp add: list_all_iff)
    then have eq: "?t = trim s" by (rule filter_trim_clean)
    then show "sanitizeInput (sanitizeInput (JStr s)) = sanitizeInput (JStr s)"
      using twice by (simp add: trim_trim)
    assume "?t \<noteq> []"
    then have "trim s \<noteq> []" using eq by simp
    then show "\<not> isWhiteSpace (hd ?t)" and "\<not> isWhiteSpace (last ?t)"
      using trim_ends [of s] eq by simp_all
  }
  assume v: "\<forall>u. v \<noteq> JStr u"
  then show same: "sanitizeInput v = v" by (cases v) simp_all
  {
    fix b :: jsobject and key
    assume "key \<noteq> ''__proto__'' \<and> b key = Some v"
    then show "sanitizedData b key = Some v" by (simp add: sanitizedData_def same)
  }
  note reaches = this
  {
    fix P req e d field
    assume a: "field \<in> set plainFields \<and> body req field = Some v
               \<and> prepare P req (sanitizedData (body req)) e = Inr d"
    then have "field \<noteq> ''__proto__''" by (auto simp: plainFields_def)
    with a have "sanitizedData (body req) field = Some v" using reaches by blast
    with a show "studentData_field d field = Some v"
      using prepared_field [of P req "sanitizedData (body req)" e d field] by simp
  }
  note handed = this
  {
    fix P c req coll resp st console field
    assume a: "field \<in> set plainFields \<and> body req field = Some v
               \<and> send P c req coll = (resp, Some st, console)"
    then have w: "send P c req coll = (resp, Some st, console)" by simp
    from send_written [OF w] obtain e d where
      p: "prepare P req (sanitizedData (body req)) (toLowerCase e) = Inr d" and
      s: "save P c d (coll @ between c) = Inr st"
      by blast
    from a p have "studentData_field d field = Some v" using handed by blast
    with a show "student_field st field = Some (stored (castPath P (Some v)))"
      using stored_document_field [OF s, of field] by simp
  }
qed

theorem sanitizeInput_normalizes_witness:
  "list_all (\<lambda>c. \<not> isMarkup c) ''  Ann Lee ''
   \<and> sanitizeInput (JStr ''  Ann Lee '') = JStr ''Ann Lee''
   \<and> sanitizeInput (sanitizeInput (JStr ''  Ann Lee '')) = sanitizeInput (JStr ''  Ann Lee '')
   \<and> sanitizeInput (JObj [(''first'', JStr '' <b>Ann</b> '')])
       = JObj [(''first'', JStr '' <b>Ann</b> '')]
   \<and> sanitizedData [''firstName'' \<mapsto> JObj [(''first'', JStr '' <b>Ann</b> '')]] ''firstName''
       = Some (JObj [(''first'', JStr '' <b>Ann</b> '')])
   \<and> send samplePlatform sampleRun (request_of (annBody(''firstName'' \<mapsto> JNum 12))) []
       = (created (annStudent \<lparr> firstName := ''12'' \<rparr>),
          Some (annStudent \<lparr> firstName := ''12'' \<rparr>), [''All emails sent successfully''])
   \<and> student_field (annStudent \<lparr> firstName := ''12'' \<rparr>) ''firstName''
       = Some (stored (castPath samplePlatform (Some (JNum 12))))"
proof -
  let ?o = "JObj [(''first'', JStr '' <b>Ann</b> '')]"
  let ?b = "annBody(''firstName'' \<mapsto> JNum 12)"
  let ?st = "annStudent \<lparr> firstName := ''12'' \<rparr>"
  have h: "list_all (\<lambda>c. \<not> isMarkup c) ''  Ann Lee ''" by code_simp
  have e: "sanitizeInput (JStr ''  Ann Lee '') = JStr ''Ann Lee''" by code_simp
  have o: "\<forall>u. ?o \<noteq> JStr u" by simp
  have n: "\<forall>u. JNum 12 \<noteq> JStr u" by simp
  have k: "''firstName'' \<noteq> ''__proto__''
           \<and> [''firstName'' \<mapsto> ?o] ''firstName'' = Some ?o"
    by simp
  have f: "''firstName'' \<in> set plainFields" by (simp add: plainFields_def)
  have b: "body (request_of ?b) ''firstName'' = Some (JNum 12)"
    by (simp add: request_of_def)
  have s: "send samplePlatform sampleRun (request_of ?b) []
           = (created ?st, Some ?st, [''All emails sent successfully''])"
    by code_simp
  note thm1 = sanitizeInput_normalizes [of "''  Ann Lee ''" ?o]
  note thm2 = sanitizeInput_normalizes [of "''  Ann Lee ''" "JNum 12"]
  from thm1 [THEN conjunct1] h
  have i: "sanitizeInput (sanitizeInput (JStr ''  Ann Lee '')) = sanitizeInput (JStr ''  Ann Lee '')"
    by blast
  note nonstring = thm1 [THEN conjunct2, THEN mp, OF o]
  from nonstring have u: "sanitizeInput ?o = ?o" by (rule conjunct1)
  from nonstring [THEN conjunct2, THEN conjunct1, rule_format,
      of "''firstName''" "[''firstName'' \<mapsto> ?o]"] k
  have r: "sanitizedData [''firstName'' \<mapsto> ?o] ''firstName'' = Some ?o" .
  note number = thm2 [THEN conjunct2, THEN mp, OF n]
  from f b s have fbs: "''firstName'' \<in> set plainFields
      \<and> body (request_of ?b) ''firstName'' = Some (JNum 12)
      \<and> send samplePlatform sampleRun (request_of ?b) []
           = (created ?st, Some ?st, [''All emails sent successfully''])"
    by - (intro conjI; assumption)
  from number [THEN conjunct2, THEN conjunct2, THEN conjunct2, rule_format, OF fbs]
  have w: "student_field ?st ''firstName''
           = Some (stored (castPath samplePlatform (Some (JNum 12))))" .
  from h e i u r s w show ?thesis by - (intro conjI; assumption)
qed

text \<open>
  The claim as stated fails on \<open>< a\<close>: the first application leaves a leading space,
  which the second removes.
\<close>

theorem sanitizeInput_not_idempotent:
  "sanitizeInput (JStr ''< a'') = JStr '' a''
   \<and> sanitizeInput (sanitizeInput (JStr ''< a'')) \<noteq> sanitizeInput (JStr ''< a'')"
  by code_simp

section \<open>The validator collects every violation\<close>

lemma required_errors_member:
  "required_errors P sdata fs = Inr r \<Longrightarrow> field \<in> set fs \<Longrightarrow>
   isMissing P (sdata field) = Inr True \<Longrightarrow> field @ '' is required'' \<in> set r"
proof (induction fs arbitrary: r)
  case Nil
  then show ?case by simp
next
  case (Cons f others)
  then show ?case by (auto split: sum.splits if_splits)
qed

text \<open>
  Where the validator returns a list, the list holds the message of every rule that
  is violated, all at once, and if it is not empty the handler answers 400 with
  exactly this list, provided the logging line before it has not thrown.
\<close>

lemma returned_list_is_complete:
  assumes "validateEnrollmentData P now sdata = Inr errs"
  shows "(\<forall>field \<in> set requiredFields.
            isMissing P (sdata field) = Inr True \<longrightarrow> field @ '' is required'' \<in> set errs)
       \<and> (\<forall>s. sdata ''email'' = Some (JStr s) \<and> s \<noteq> [] \<and> \<not> isEmail P s
            \<longrightarrow> ''Please provide a valid email address'' \<in> set errs)
       \<and> (\<forall>s. sdata ''phone'' = Some (JStr s) \<and> s \<noteq> [] \<and> \<not> phonePattern s
            \<longrightarrow> ''Please provide a valid phone number'' \<in> set errs)
       \<and> (\<forall>s. sdata ''emergencyPhone'' = Some (JStr s) \<and> s \<noteq> [] \<and> \<not> phonePattern s
            \<longrightarrow> ''Please provide a valid emergency phone number'' \<in> set errs)"
proof -
  from validate_returns [OF assms] obtain r e1 e2 e3 a where
    r: "required_errors P sdata requiredFields = Inr r" and
    e1: "email_errors P (sdata ''email'') = Inr e1" and
    e2: "phone_errors ''Please provide a valid phone number'' (sdata ''phone'') = Inr e2" and
    e3: "phone_errors ''Please provide a valid emergency phone number''
           (sdata ''emergencyPhone'') = Inr e3" and
    errs: "errs = r @ e1 @ e2 @ e3 @ a"
    by blast
  have req: "field @ '' is required'' \<in> set errs"
    if "field \<in> set requiredFields" "isMissing P (sdata field) = Inr True" for field
    using required_errors_member [OF r that] by (simp add: errs)
  have mail: "''Please provide a valid email address'' \<in> set errs"
    if "sdata ''email'' = Some (JStr s) \<and> s \<noteq> [] \<and> \<not> isEmail P s" for s
    using that e1 by (auto simp: email_errors_def errs)
  have ph: "''Please provide a valid phone number'' \<in> set errs"
    if "sdata ''phone'' = Some (JStr s) \<and> s \<noteq> [] \<and> \<not> phonePattern s" for s
    using that e2 by (auto simp: phone_errors_def errs)
  have eph: "''Please provide a valid emergency phone number'' \<in> set errs"
    if "sdata ''emergencyPhone'' = Some (JStr s) \<and> s \<noteq> [] \<and> \<not> phonePattern s" for s
    using that e3 by (auto simp: phone_errors_def errs)
  from req mail ph eph show ?thesis by blast
qed

lemma send_validation_failed:
  assumes "log_received P (body req) = Inr ()"
    and "validateEnrollmentData P (now_validate c) (sanitizedData (body req)) = Inr errs"
    and "errs \<noteq> []"
  shows "send P c req coll = (validation_failed errs, None, [])"
  using assms by (simp add: send_def send_try_def)

text \<open>
  Claim C1. The validator is to collect the violations of every submission into one
  list, which the pipeline returns under status 400. On the body \<^verbatim>\<open>{"phone": 5}\<close> it does
  not: the loop over the required fields copes with the number (it calls
  \<^verbatim>\<open>toString()\<close>) and finds the eleven other fields missing, but the phone rule calls
  \<^verbatim>\<open>data.phone.replace\<close>, which a number does not have, so \<open>validateEnrollmentData\<close> throws
  instead of returning the list and the handler answers 500. The loop itself throws
  on \<^verbatim>\<open>{"firstName": {"toString": 1}}\<close>, where \<^verbatim>\<open>toString\<close> is no function.
\<close>

theorem numeric_phone_is_a_server_error:
  "required_errors samplePlatform (sanitizedData [''phone'' \<mapsto> JNum 5]) requiredFields
     = Inr [''firstName is required'', ''lastName is required'', ''email is required'',
            ''idnumber is required'', ''dateOfBirth is required'', ''course is required'',
            ''address is required'', ''city is required'', ''zipCode is required'',
            ''emergencyContact is required'', ''emergencyPhone is required'']
   \<and> validateEnrollmentData samplePlatform (now_validate sampleRun)
        (sanitizedData [''phone'' \<mapsto> JNum 5]) = Inl TypeError
   \<and> send samplePlatform sampleRun (request_of [''phone'' \<mapsto> JNum 5]) [] =
       (internal_error, None, [])
   \<and> statusCode internal_error = 500
   \<and> validateEnrollmentData samplePlatform (now_validate sampleRun)
        (sanitizedData [''firstName'' \<mapsto> JObj [(''toString'', JNum 1)]]) = Inl TypeError
   \<and> send samplePlatform sampleRun
        (request_of [''firstName'' \<mapsto> JObj [(''toString'', JNum 1)]]) [] =
       (internal_error, None, [])"
  by code_simp

section \<open>The branches of the handler\<close>

text \<open>
  Claim C2. A submission on which the validator reports an error is to be answered
  400 with the list, and nothing is to be written. On the body \<^verbatim>\<open>{"idnumber": 7}\<close> the
  validator reports eleven missing fields, yet the handler answers 500: its first
  statement masks the id number for the log with \<^verbatim>\<open>req.body.idnumber.slice(-4)\<close>, which
  a number does not have, and throws before the validator is called. Nothing is
  written.
\<close>

theorem numeric_idnumber_is_a_server_error:
  "validateEnrollmentData samplePlatform (now_validate sampleRun)
        (sanitizedData [''idnumber'' \<mapsto> JNum 7])
     = Inr [''firstName is required'', ''lastName is required'', ''email is required'',
            ''phone is required'', ''dateOfBirth is required'', ''course is required'',
            ''address is required'', ''city is required'', ''zipCode is required'',
            ''emergencyContact is required'', ''emergencyPhone is required'']
   \<and> log_received samplePlatform [''idnumber'' \<mapsto> JNum 7] = Inl TypeError
   \<and> send samplePlatform sampleRun (request_of [''idnumber'' \<mapsto> JNum 7]) [] =
       (internal_error, None, [])
   \<and> statusCode internal_error = 500"
  by code_simp

section \<open>The age bound\<close>

text \<open>
  Where the validator returns a list and the date of birth is present and valid, the
  age message is in the list exactly when the age lies outside 16..100, the age being
  the floor of the time elapsed since the date of birth divided by \<open>365.25\<close> days; the
  schema's validator of \<open>dateOfBirth\<close> accepts the same ages.
\<close>

lemma age_rule_of_returned_lists:
  assumes "validateEnrollmentData P now sdata = Inr errs"
    and "truthy (sdata ''dateOfBirth'')"
    and "newDate P (sdata ''dateOfBirth'') = Inr (Some birth)"
  shows "(''Age must be between 16 and 100 years'' \<in> set errs)
           = (ageAt now birth < 16 \<or> 100 < ageAt now birth)"
    and "ageAt now birth
           = \<lfloor>(real_of_int now - real_of_int birth) / (365.25 * 24 * 60 * 60 * 1000)\<rfloor>"
    and "(checkDateOfBirth now (Some birth) = [])
           = (16 \<le> ageAt now birth \<and> ageAt now birth \<le> 100)"
proof -
  show "(checkDateOfBirth now (Some birth) = [])
           = (16 \<le> ageAt now birth \<and> ageAt now birth \<le> 100)"
    by (simp add: checkDateOfBirth_def Let_def)
  from age_message_source [OF assms(1)] obtain a where
    a: "age_errors P now (sdata ''dateOfBirth'') = Inr a" and
    m: "(''Age must be between 16 and 100 years'' \<in> set errs)
        = (''Age must be between 16 and 100 years'' \<in> set a)"
    by blast
  from a assms(2,3)
  have "a = (if ageAt now birth < 16 \<or> 100 < ageAt now birth
             then [''Age must be between 16 and 100 years''] else [])"
    by (auto simp: age_errors_def Let_def split: if_splits)
  then show "(''Age must be between 16 and 100 years'' \<in> set errs)
           = (ageAt now birth < 16 \<or> 100 < ageAt now birth)"
    using m by simp
  have "(365.25 * 24 * 60 * 60 * 1000 :: real) = real_of_int msPerYear"
    by (simp add: msPerYear_def)
  moreover have "real_of_int now - real_of_int birth = real_of_int (now - birth)" by simp
  ultimately show "ageAt now birth
           = \<lfloor>(real_of_int now - real_of_int birth) / (365.25 * 24 * 60 * 60 * 1000)\<rfloor>"
    by (simp only: ageAt_def floor_divide_of_int_eq)
qed

text \<open>
  Claim C6. Every submission whose date of birth gives the age 15 is to get the age
  message. Ann's submission with the date of birth \<open>2011-06-01\<close> (age 15 at the
  sample clock) gets it, and with it status 400; the same submission with the phone
  given as the number 5 gets no message at all: the phone rule, which runs before the
  age rule, calls \<^verbatim>\<open>data.phone.replace\<close> on the number and throws, and the handler
  answers 500.
\<close>

theorem numeric_phone_hides_the_age_error:
  "parseDate samplePlatform ''2011-06-01'' = Some 1306886400000
   \<and> ageAt (now_validate sampleRun) 1306886400000 = 15
   \<and> validateEnrollmentData samplePlatform (now_validate sampleRun)
        (sanitizedData (annBody(''dateOfBirth'' \<mapsto> JStr ''2011-06-01'')))
     = Inr [''Age must be between 16 and 100 years'']
   \<and> validateEnrollmentData samplePlatform (now_validate sampleRun)
        (sanitizedData (annBody(''dateOfBirth'' \<mapsto> JStr ''2011-06-01'', ''phone'' \<mapsto> JNum 5)))
     = Inl TypeError
   \<and> send samplePlatform sampleRun
        (request_of (annBody(''dateOfBirth'' \<mapsto> JStr ''2011-06-01'', ''phone'' \<mapsto> JNum 5))) []
     = (internal_error, None, [])"
  by code_simp

section \<open>The duplicate query\<close>

lemma findOne_found:
  assumes "findOne P c e i coll = Inr (Some found)" and "idQuery P i = Some q"
  shows "found \<in> set coll" and "email found = toLowerCase (trim e) \<or> q (idnumber found)"
proof -
  let ?ms = "filter (\<lambda>r. email r = toLowerCase (trim e) \<or> q (idnumber r)) coll"
  have "findOne P c e i coll
        = Inr (if ?ms = [] then None else Some (?ms ! (pick c ?ms mod length ?ms)))"
    by (simp add: findOne_def Let_def assms(2))
  with assms(1) have ne: "?ms \<noteq> []" and f: "?ms ! (pick c ?ms mod length ?ms) = found"
    by (simp_all split: if_splits)
  from ne have "0 < length ?ms" by simp
  then have "pick c ?ms mod length ?ms < length ?ms" by (rule mod_less_divisor)
  then have "?ms ! (pick c ?ms mod length ?ms) \<in> set ?ms" by (rule nth_mem)
  then have "found \<in> set ?ms" by (simp only: f)
  then show "found \<in> set coll"
    and "email found = toLowerCase (trim e) \<or> q (idnumber found)"
    by simp_all
qed

lemma findOne_none:
  assumes "findOne P c e i coll = Inr None" and "idQuery P i = Some q" and "r \<in> set coll"
  shows "email r \<noteq> toLowerCase (trim e)" and "\<not> q (idnumber r)"
proof -
  from assms(1,2)
  have "filter (\<lambda>r. email r = toLowerCase (trim e) \<or> q (idnumber r)) coll = []"
    by (auto simp: findOne_def Let_def split: if_splits)
  with assms(3) show "email r \<noteq> toLowerCase (trim e)" and "\<not> q (idnumber r)"
    by (auto simp: filter_empty_conv)
qed

lemma findOne_some:
  assumes "idQuery P i = Some q" and "r \<in> set coll"
    and "email r = toLowerCase (trim e) \<or> q (idnumber r)"
  shows "\<exists>found. findOne P c e i coll = Inr (Some found)"
proof -
  from assms(2,3)
  have "filter (\<lambda>r. email r = toLowerCase (trim e) \<or> q (idnumber r)) coll \<noteq> []"
    by (auto simp: filter_empty_conv)
  with assms(1) show ?thesis by (simp add: findOne_def Let_def)
qed

lemma idQuery_string: "idQuery P (Some (JStr i)) = Some (\<lambda>stored_id. stored_id = trim i)"
  by (simp add: idQuery_def)

lemma query_email: "toLowerCase (trim (toLowerCase e)) = toLowerCase (trim e)"
  by (simp add: trim_toLowerCase toLowerCase_idem)

text \<open>
  What the duplicate branch does for a submission that has passed the logging line
  and the validator with an id number that is a string: if a document of the
  collection has the submission's email (lower-cased, and trimmed as the store holds
  it) or its id number (trimmed as the store holds it), the handler answers 409 with
  code \<open>DUPLICATE_ENTRY\<close> and writes nothing, whichever of the matching documents the
  store returns. The message is judged on that document: \<open>email\<close> when it has the
  submission's lower-cased email, hence also when it collides on both fields, and
  \<open>ID number\<close> otherwise; then, the email having no outer white space, that document
  has the submission's id number.
\<close>

lemma duplicate_is_rejected:
  assumes "validator_reports P c req []"
    and "sanitizedData (body req) ''email'' = Some (JStr e)"
    and "sanitizedData (body req) ''idnumber'' = Some (JStr i)"
    and "r \<in> set coll"
    and "email r = toLowerCase (trim e) \<or> idnumber r = trim i"
  shows "\<exists>found \<in> set coll.
      (email found = toLowerCase (trim e) \<or> idnumber found = trim i)
    \<and> send P c req coll =
        (duplicate_entry (if email found = toLowerCase e then ''email'' else ''ID number''),
         None, [])
    \<and> (trim e = e \<and> email found \<noteq> toLowerCase e \<longrightarrow> idnumber found = trim i)
    \<and> statusCode (fst (send P c req coll)) = 409
    \<and> code (fst (send P c req coll)) = Some ''DUPLICATE_ENTRY''"
proof -
  let ?q = "\<lambda>stored_id. stored_id = trim i"
  have q: "idQuery P (sanitizedData (body req) ''idnumber'') = Some ?q"
    by (simp add: assms(3) idQuery_string)
  from assms(5) have "email r = toLowerCase (trim (toLowerCase e)) \<or> ?q (idnumber r)"
    by (simp add: query_email)
  from findOne_some [OF q assms(4) this] obtain found where
    f: "findOne P c (toLowerCase e) (sanitizedData (body req) ''idnumber'') coll
        = Inr (Some found)"
    by blast
  note m = findOne_found(1) [OF f q]
  from findOne_found(2) [OF f q]
  have c: "email found = toLowerCase (trim e) \<or> idnumber found = trim i"
    by (simp only: query_email)
  have s: "send P c req coll =
        (duplicate_entry (if email found = toLowerCase e then ''email'' else ''ID number''),
         None, [])"
    by (simp add: send_after_validation [OF assms(1,2)] f)
  have n: "idnumber found = trim i" if "trim e = e \<and> email found \<noteq> toLowerCase e"
    using that c by auto
  have "statusCode (fst (send P c req coll)) = 409"
    and "code (fst (send P c req coll)) = Some ''DUPLICATE_ENTRY''"
    by (simp_all add: s duplicate_entry_def)
  with m c s n show ?thesis by blast
qed

text \<open>
  Claim C3. A submission that passes validation and whose email is held by a stored
  record is to be answered 409, naming the email. Ann's submission with the id number
  given as the number 1234567 passes the validator (no rule is violated; the required
  loop reads the number through \<^verbatim>\<open>toString()\<close>), and the store holds a record with her
  email, yet the handler answers 500: the logging line calls
  \<^verbatim>\<open>req.body.idnumber.slice(-4)\<close> on the number and throws before the duplicate query is
  made. With the id number as a string the same store gives the 409 of the claim.
\<close>

theorem numeric_idnumber_hides_the_duplicate:
  "validateEnrollmentData samplePlatform (now_validate sampleRun)
        (sanitizedData (annBody(''idnumber'' \<mapsto> JNum 1234567))) = Inr []
   \<and> email amyStudent = toLowerCase ''ANN@X.COM''
   \<and> send samplePlatform sampleRun
        (request_of (annBody(''idnumber'' \<mapsto> JNum 1234567))) [amyStudent]
     = (internal_error, None, [])
   \<and> statusCode internal_error = 500
   \<and> send samplePlatform sampleRun
        (request_of (annBody(''idnumber'' \<mapsto> JStr ''1234567''))) [amyStudent]
     = (duplicate_entry ''email'', None, [])"
  by code_simp

section \<open>A duplicate that the save meets\<close>

lemma insertOne_duplicate:
  assumes "insertOne doc coll = Inl (MongoDuplicateKey field)"
  shows "(field = ''_id'' \<and> list_ex (\<lambda>r. oid r = oid doc) coll)
       \<or> (field = ''email'' \<and> list_ex (\<lambda>r. email r = email doc) coll)
       \<or> (field = ''idnumber'' \<and> list_ex (\<lambda>r. idnumber r = idnumber doc) coll)"
  using assms by (auto simp: insertOne_def split: if_splits)

lemma save_duplicate:
  assumes "save P c d coll = Inl (MongoDuplicateKey field)"
  shows "insertOne (document P c d) coll = Inl (MongoDuplicateKey field)"
  using assms by (auto simp: save_def Let_def split: if_splits)

text \<open>
  When the save raises the duplicate-key error the handler answers 409 with code
  \<open>DUPLICATE_ENTRY\<close>, never 500, and writes nothing; the message names the violated
  index by its key. Without a document inserted in between, a submission whose id
  number is a string cannot meet a duplicate email or id number at the save: the
  duplicate query compares the values the store holds.
\<close>

lemma race_is_a_conflict:
  assumes "validator_reports P c req []"
    and "sanitizedData (body req) ''email'' = Some (JStr e)"
    and "findOne P c (toLowerCase e) (sanitizedData (body req) ''idnumber'') coll = Inr None"
    and "prepare P req (sanitizedData (body req)) (toLowerCase e) = Inr d"
    and "save P c d (coll @ between c) = Inl (MongoDuplicateKey field)"
  shows "send P c req coll = (duplicate_entry field, None, [])"
    and "statusCode (duplicate_entry field) = 409"
    and "code (duplicate_entry field) = Some ''DUPLICATE_ENTRY''"
    and "field \<in> {''_id'', ''email'', ''idnumber''}"
proof -
  show "send P c req coll = (duplicate_entry field, None, [])"
    by (simp add: send_after_validation [OF assms(1,2)] assms(3,4,5))
  show "statusCode (duplicate_entry field) = 409"
    and "code (duplicate_entry field) = Some ''DUPLICATE_ENTRY''"
    by (simp_all add: duplicate_entry_def)
  from insertOne_duplicate [OF save_duplicate [OF assms(5)]]
  show "field \<in> {''_id'', ''email'', ''idnumber''}" by auto
qed

lemma no_race_no_conflict:
  assumes "sanitizedData (body req) ''idnumber'' = Some (JStr i)"
    and "findOne P c (toLowerCase e) (sanitizedData (body req) ''idnumber'') coll = Inr None"
    and "prepare P req (sanitizedData (body req)) (toLowerCase e) = Inr d"
    and "save P c d coll = Inl (MongoDuplicateKey field)"
  shows "field = ''_id''"
proof -
  let ?doc = "document P c d"
  note fields = prepare_fields [OF assms(3)]
  have q: "idQuery P (sanitizedData (body req) ''idnumber'')
           = Some (\<lambda>stored_id. stored_id = trim i)"
    by (simp add: assms(1) idQuery_string)
  have em: "email ?doc = toLowerCase (trim (toLowerCase e))"
    by (simp add: document_def fields(1) castEmail_def)
  have idn: "idnumber ?doc = trim i"
    by (simp add: document_def fields(6) assms(1) castPath_def)
  have "email r \<noteq> email ?doc" and "idnumber r \<noteq> idnumber ?doc" if "r \<in> set coll" for r
    using findOne_none [OF assms(2) q that] by (simp_all add: em idn)
  then have "\<not> list_ex (\<lambda>r. email r = email ?doc) coll"
    and "\<not> list_ex (\<lambda>r. idnumber r = idnumber ?doc) coll"
    by (auto simp: list_ex_iff)
  with insertOne_duplicate [OF save_duplicate [OF assms(4)]] show ?thesis by auto
qed

text \<open>
  Claim C4. A uniqueness violation raised by the save is to give exactly the response
  of the duplicate branch. For an id number it does not: when another request inserts
  a document with Ann's id number between her duplicate query and her save, the
  \<^verbatim>\<open>catch\<close> block answers 409 with \<open>A student with this idnumber already exists\<close> (the key
  of the violated index), while the duplicate branch answers the same collision, met
  at the query, with \<open>A student with this ID number already exists\<close>. Status and code
  agree; the messages differ.
\<close>

theorem race_response_differs_for_idnumber:
  "send samplePlatform (sampleRun \<lparr> between := [bobStudent] \<rparr>) (request_of annBody) [] =
       (duplicate_entry ''idnumber'', None, [])
   \<and> send samplePlatform sampleRun (request_of annBody) [bobStudent] =
       (duplicate_entry ''ID number'', None, [])
   \<and> message (duplicate_entry ''idnumber'') = ''A student with this idnumber already exists''
   \<and> message (duplicate_entry ''ID number'') = ''A student with this ID number already exists''
   \<and> duplicate_entry ''idnumber'' \<noteq> duplicate_entry ''ID number''"
  by code_simp

section \<open>A submission that is written\<close>

text \<open>
  Claim C5. Whenever the request has written a document, the response is 201 with
  the document's identifier, the application identifier derived from it (its last
  eight characters in upper case), its email (the lower-cased, trimmed email of the
  submission), course, status (\<open>pending\<close>) and creation time; and the same response
  and the same document result under every outcome of the notification stage, which
  only changes the console line.
\<close>

theorem persisted_submission_is_reported:
  assumes "send P c req coll = (resp, Some st, console)"
  shows "resp = created st
       \<and> statusCode resp = 201 \<and> success resp
       \<and> data resp =
           Some \<lparr> studentId = oid st, applicationId = toUpperCase (slice8 (oid st)),
                  data_email = email st, data_course = course st,
                  data_status = status st, submissionTime = createdAt st \<rparr>
       \<and> (\<forall>m. send P (c \<lparr> mail := m \<rparr>) req coll = (resp, Some st, notify m))
       \<and> oid st = newId c \<and> status st = ''pending'' \<and> createdAt st = now_saved c
       \<and> (\<exists>e. sanitizedData (body req) ''email'' = Some (JStr e)
               \<and> email st = toLowerCase (trim e))"
proof -
  from send_written [OF assms] obtain e d where
    rep: "validator_reports P c req []" and
    e: "sanitizedData (body req) ''email'' = Some (JStr e)" and
    q: "findOne P c (toLowerCase e) (sanitizedData (body req) ''idnumber'') coll = Inr None" and
    p: "prepare P req (sanitizedData (body req)) (toLowerCase e) = Inr d" and
    s: "save P c d (coll @ between c) = Inr st" and
    resp: "resp = created st" and console: "console = notify (mail c)"
    by blast
  note st = save_stored(2) [OF s]
  have mail: "send P (c \<lparr> mail := m \<rparr>) req coll = (resp, Some st, notify m)" for m
  proof -
    have r': "validator_reports P (c \<lparr> mail := m \<rparr>) req []"
      using rep by (simp add: validator_reports_def)
    have s': "save P (c \<lparr> mail := m \<rparr>) d (coll @ between c) = Inr st"
      using s by (simp add: save_mail)
    show ?thesis
      by (simp add: send_after_validation [OF r' e] findOne_mail q p s' resp)
  qed
  have em: "email st = toLowerCase (trim e)"
    by (simp add: st document_def prepare_fields(1) [OF p] castEmail_def query_email)
  have "oid st = newId c" "status st = ''pending''" "createdAt st = now_saved c"
    by (simp_all add: st document_def)
  with resp mail e em show ?thesis by (simp add: created_def)
qed

theorem persisted_submission_is_reported_witness:
  "send samplePlatform (sampleRun \<lparr> mail := SendFailed \<rparr>) (request_of annBody) [bobStudent \<lparr> idnumber := ''ID00001'' \<rparr>] =
     (created annStudent, Some annStudent, [''Email sending failed''])
   \<and> statusCode (created annStudent) = 201
   \<and> send samplePlatform (sampleRun \<lparr> mail := SendFailed, mail := Delivered \<rparr>) (request_of annBody)
       [bobStudent \<lparr> idnumber := ''ID00001'' \<rparr>] =
     (created annStudent, Some annStudent, [''All emails sent successfully''])"
proof -
  let ?c = "sampleRun \<lparr> mail := SendFailed \<rparr>"
  let ?coll = "[bobStudent \<lparr> idnumber := ''ID00001'' \<rparr>]"
  have s: "send samplePlatform ?c (request_of annBody) ?coll =
     (created annStudent, Some annStudent, [''Email sending failed''])"
    by code_simp
  from persisted_submission_is_reported [OF s]
  have "statusCode (created annStudent) = 201"
    and "send samplePlatform (?c \<lparr> mail := Delivered \<rparr>) (request_of annBody) ?coll =
     (created annStudent, Some annStudent, notify Delivered)"
    by blast+
  with s show ?thesis by simp
qed

section \<open>An unparseable date of birth\<close>

lemma cast_date_rejected:
  "castDateMessage \<in> set (schema_errors P now (d \<lparr> sd_dateOfBirth := None \<rparr>))"
  by (simp add: schema_errors_def checkDateOfBirth_def)

text \<open>
  Claim C9. If the date of birth is a string that does not parse as a date, the
  validator's list never holds the age message, so such a submission can pass the
  validator; a submission that has passed it with such a date is never written: the
  handler answers 409 when the duplicate query finds a document, and otherwise the
  save fails on the date and the handler answers 400 with Mongoose's cast message.
  Only when the id number is not a string can the duplicate query itself be refused,
  and the handler then answers 500.
\<close>

theorem unparseable_date_of_birth_passes:
  assumes "parseDate P s = None"
  shows "(\<forall>now sdata errs.
            validateEnrollmentData P now sdata = Inr errs
            \<and> sdata ''dateOfBirth'' = Some (JStr s)
            \<longrightarrow> ''Age must be between 16 and 100 years'' \<notin> set errs)
       \<and> (\<forall>c req coll.
            validator_reports P c req []
            \<and> sanitizedData (body req) ''dateOfBirth'' = Some (JStr s)
            \<longrightarrow> fst (snd (send P c req coll)) = None
                \<and> (statusCode (fst (send P c req coll)) = 409
                    \<or> (\<exists>errs. fst (send P c req coll) = validation_failed errs
                               \<and> castDateMessage \<in> set errs)
                    \<or> (fst (send P c req coll) = internal_error
                        \<and> (\<forall>i. sanitizedData (body req) ''idnumber'' \<noteq> Some (JStr i)))))"
proof (intro conjI allI impI)
  fix now sdata errs
  assume a: "validateEnrollmentData P now sdata = Inr errs
             \<and> sdata ''dateOfBirth'' = Some (JStr s)"
  then have v: "validateEnrollmentData P now sdata = Inr errs" by simp
  from a have "age_errors P now (sdata ''dateOfBirth'') = Inr []"
    using assms by (simp add: age_errors_def)
  with age_message_source [OF v]
  show "''Age must be between 16 and 100 years'' \<notin> set errs" by simp
next
  fix c req coll
  assume a: "validator_reports P c req []
             \<and> sanitizedData (body req) ''dateOfBirth'' = Some (JStr s)"
  then have rep: "validator_reports P c req []" by simp
  from passes_email [OF rep] obtain e where
    e: "sanitizedData (body req) ''email'' = Some (JStr e)" by blast
  let ?q = "findOne P c (toLowerCase e) (sanitizedData (body req) ''idnumber'') coll"
  obtain d where p: "prepare P req (sanitizedData (body req)) (toLowerCase e) = Inr d"
    and n: "sd_dateOfBirth d = None"
    using a assms by (simp add: prepare_def)
  from n have "d = d \<lparr> sd_dateOfBirth := None \<rparr>" by simp
  then have m: "castDateMessage \<in> set (schema_errors P (now_schema c) d)"
    using cast_date_rejected [of P "now_schema c" d] by simp
  then have s: "save P c d (coll @ between c)
                = Inl (ValidationError (schema_errors P (now_schema c) d))"
    by (auto simp: save_def Let_def)
  note after = send_after_validation [OF rep e, of coll]
  show "fst (snd (send P c req coll)) = None"
    by (simp add: after p s split: sum.splits option.splits)
  show "statusCode (fst (send P c req coll)) = 409
        \<or> (\<exists>errs. fst (send P c req coll) = validation_failed errs
                   \<and> castDateMessage \<in> set errs)
        \<or> (fst (send P c req coll) = internal_error
            \<and> (\<forall>i. sanitizedData (body req) ''idnumber'' \<noteq> Some (JStr i)))"
  proof (cases ?q)
    case (Inl err)
    then have none: "idQuery P (sanitizedData (body req) ''idnumber'') = None"
      and err: "err = CastError"
      by (auto simp: findOne_def Let_def split: option.splits)
    from none have "\<forall>i. sanitizedData (body req) ''idnumber'' \<noteq> Some (JStr i)"
      by (auto simp: idQuery_string)
    moreover have "fst (send P c req coll) = internal_error"
      by (simp add: after Inl err)
    ultimately show ?thesis by blast
  next
    case (Inr found)
    show ?thesis
    proof (cases found)
      case None
      with Inr have "fst (send P c req coll)
                 = validation_failed (schema_errors P (now_schema c) d)"
        by (simp add: after p s)
      with m show ?thesis by blast
    next
      case (Some existing)
      with Inr show ?thesis by (simp add: after duplicate_entry_def)
    qed
  qed
qed

theorem unparseable_date_of_birth_passes_witness:
  "parseDate samplePlatform ''soon'' = None
   \<and> validateEnrollmentData samplePlatform (now_validate sampleRun)
        (sanitizedData (annBody(''dateOfBirth'' \<mapsto> JStr ''soon''))) = Inr []
   \<and> send samplePlatform sampleRun
        (request_of (annBody(''dateOfBirth'' \<mapsto> JStr ''soon''))) []
       = (validation_failed [castDateMessage], None, [])
   \<and> ''Age must be between 16 and 100 years'' \<notin> set ([] :: string list)"
proof -
  let ?b = "annBody(''dateOfBirth'' \<mapsto> JStr ''soon'')"
  have p: "parseDate samplePlatform ''soon'' = None" by code_simp
  have v: "validateEnrollmentData samplePlatform (now_validate sampleRun)
        (sanitizedData ?b) = Inr []"
    by code_simp
  have d: "sanitizedData ?b ''dateOfBirth'' = Some (JStr ''soon'')" by code_simp
  have s: "send samplePlatform sampleRun (request_of ?b) []
       = (validation_failed [castDateMessage], None, [])"
    by code_simp
  from unparseable_date_of_birth_passes [OF p] v d
  have "''Age must be between 16 and 100 years'' \<notin> set ([] :: string list)"
    by blast
  with p v s show ?thesis by - (intro conjI; assumption)
qed

section \<open>The stored record\<close>








section \<open>The alternative endpoint\<close>

text \<open>
  Claim C8. \<^verbatim>\<open>POST /api/route\<close> does not behave as \<^verbatim>\<open>POST /send\<close>: its first handler
  rewrites the URL and calls \<^verbatim>\<open>next()\<close>, which only reaches the rate limiter and the
  empty handler of the same route, so below the rate limit the request gets no
  response and nothing is written, whatever \<^verbatim>\<open>POST /send\<close> answers to the same body.
\<close>

theorem api_route_never_answers:
  "post P c req coll ''/api/route''
     = (if form_limited c then Replied too_many None [] else Hangs)
   \<and> post P c req coll ''/send''
     = (if form_limited c then Replied too_many None []
        else (case send P c req coll of (r, w, l) \<Rightarrow> Replied r w l))"
  by (simp add: post_def postRoutes_def split: prod.splits)

theorem api_route_never_answers_witness:
  "post samplePlatform sampleRun (request_of annBody) [] ''/api/route'' = Hangs
   \<and> post samplePlatform sampleRun (request_of annBody) [] ''/send''
     = Replied (created annStudent) (Some annStudent) [''All emails sent successfully'']"
proof -
  have l: "\<not> form_limited sampleRun" by code_simp
  have s: "send samplePlatform sampleRun (request_of annBody) []
     = (created annStudent, Some annStudent, [''All emails sent successfully''])"
    by code_simp
  from api_route_never_answers [of samplePlatform sampleRun "request_of annBody" "[]"] l s
  show ?thesis by simp
qed

end
